theory Spec2Isabelle
  imports Main "HOL-Library.Word"
begin

section \<open>Errors\<close>

text \<open>
  The C++ exceptions thrown by the modelled code. A function that may throw returns
  \<open>error + 'a\<close>, with \<open>Inl\<close> carrying the exception.
\<close>

datatype error = logic_error | invalid_argument

section \<open>Worker side: WorkerRequest (WorkerRequest.cc)\<close>

datatype CompletionStatus =
    STATUS_NONE
  | STATUS_IN_PROGRESS
  | STATUS_IS_CANCELLING
  | STATUS_CANCELLED
  | STATUS_SUCCEEDED
  | STATUS_FAILED

text \<open>
  Modelled from the spec: the extended completion status is declared in a header which
  is missing; the enumerators below are the ones the sources and the specification
  mention.
\<close>

datatype ExtendedCompletionStatus =
    EXT_STATUS_NONE
  | EXT_STATUS_INVALID_PARAM
  | EXT_STATUS_DUPLICATE

record WorkerPerformance =
  receive_time :: nat
  start_time :: nat
  finish_time :: nat

text \<open>
  The dynamic type of a worker request together with the members the derived class
  adds (WorkerReplicationRequest.h, WorkerDeleteRequest.h, WorkerFindRequest.h,
  WorkerFindAllRequest.h). Chunk numbers are \<open>unsigned int\<close>.
\<close>

datatype WorkerRequestType =
    WorkerReplicationRequest string "32 word" string
  | WorkerDeleteRequest string "32 word"
  | WorkerFindRequest string "32 word" bool
  | WorkerFindAllRequest string
  | WorkerEchoRequest string nat

record WorkerRequest =
  wr_id :: string
  wr_priority :: int
  wr_status :: CompletionStatus
  wr_extendedStatus :: ExtendedCompletionStatus
  wr_performance :: WorkerPerformance
  wr_dynamic :: WorkerRequestType

text \<open>
  \<open>WorkerRequest::setStatus\<close>. The parameter \<open>now\<close> is the clock read by
  \<open>setUpdateStart\<close> and \<open>setUpdateFinish\<close>, which belong to a class that is
  missing from the sources and are taken to store the current time in \<open>start_time\<close>
  and \<open>finish_time\<close>. The case \<open>STATUS_CANCELLED\<close> falls through into the one of
  the two completed statuses, as in the source. The \<open>default\<close> branch of the
  source's switch throws; no enumerator reaches it.
\<close>

definition setStatus ::
  "nat \<Rightarrow> CompletionStatus \<Rightarrow> ExtendedCompletionStatus \<Rightarrow> WorkerRequest \<Rightarrow> error + WorkerRequest"
where
  "setStatus now status extendedStatus r =
    (let p = wr_performance r;
         p' = (case status of
                 STATUS_NONE \<Rightarrow> p\<lparr>start_time := 0, finish_time := 0\<rparr>
               | STATUS_IN_PROGRESS \<Rightarrow> p\<lparr>start_time := now, finish_time := 0\<rparr>
               | STATUS_IS_CANCELLING \<Rightarrow> p
               | STATUS_CANCELLED \<Rightarrow>
                   (if start_time p = 0 then p\<lparr>start_time := now\<rparr> else p)\<lparr>finish_time := now\<rparr>
               | STATUS_SUCCEEDED \<Rightarrow> p\<lparr>finish_time := now\<rparr>
               | STATUS_FAILED \<Rightarrow> p\<lparr>finish_time := now\<rparr>)
     in Inr (r\<lparr>wr_performance := p', wr_extendedStatus := extendedStatus, wr_status := status\<rparr>))"

text \<open>
  \<open>WorkerRequest::cancel\<close>. The calls of \<open>setStatus\<close> rely on the default value
  of its last parameter, which the (absent) class declaration gives; it is the
  parameter \<open>dflt\<close> here.
\<close>

definition WorkerRequest_cancel ::
  "nat \<Rightarrow> ExtendedCompletionStatus \<Rightarrow> WorkerRequest \<Rightarrow> error + WorkerRequest"
where
  "WorkerRequest_cancel now dflt r =
    (case wr_status r of
       STATUS_NONE \<Rightarrow> setStatus now STATUS_CANCELLED dflt r
     | STATUS_CANCELLED \<Rightarrow> setStatus now STATUS_CANCELLED dflt r
     | STATUS_IN_PROGRESS \<Rightarrow> setStatus now STATUS_IS_CANCELLING dflt r
     | STATUS_IS_CANCELLING \<Rightarrow> setStatus now STATUS_IS_CANCELLING dflt r
     | STATUS_SUCCEEDED \<Rightarrow> Inr r
     | STATUS_FAILED \<Rightarrow> Inr r)"

section \<open>ChunkLocker (ChunkLocker.h)\<close>

record Chunk =
  databaseFamily :: string
  number :: "32 word"

text \<open>
  The table \<open>_chunk2owner\<close> of the class declaration maps a chunk to its owner; it is
  kept here as an association list read with \<open>map_of\<close>, so that the chunks of one
  owner can be listed.
\<close>

type_synonym ChunkLocker = "(Chunk \<times> string) list"

text \<open>
  Modelled from the spec: the member functions of \<open>ChunkLocker\<close> are declared and
  documented in ChunkLocker.h, their bodies (ChunkLocker.cc) are missing. The
  definitions follow section 4.1 of the specification and the header's comments.
\<close>

definition isLocked :: "ChunkLocker \<Rightarrow> Chunk \<Rightarrow> bool" where
  "isLocked t chunk = (map_of t chunk \<noteq> None)"

text \<open>
  Modelled from the spec: \<open>lock(chunk, owner)\<close> fails with an
  \<open>invalid_argument\<close>-class error if the owner is empty; returns true if the chunk
  is unlocked (and locks it) or is already locked by the same owner; returns false if
  it is locked by a different owner.
\<close>

definition lock :: "ChunkLocker \<Rightarrow> Chunk \<Rightarrow> string \<Rightarrow> error + (bool \<times> ChunkLocker)" where
  "lock t chunk owner =
    (if owner = [] then Inl invalid_argument
     else (case map_of t chunk of
             None \<Rightarrow> Inr (True, (chunk, owner) # t)
           | Some other \<Rightarrow> Inr (other = owner, t)))"

text \<open>
  Modelled from the spec: \<open>release(chunk)\<close> frees the chunk regardless of its owner
  and returns whether it had been locked.
\<close>

definition release :: "ChunkLocker \<Rightarrow> Chunk \<Rightarrow> bool \<times> ChunkLocker" where
  "release t chunk = (map_of t chunk \<noteq> None, filter (\<lambda>e. fst e \<noteq> chunk) t)"

text \<open>
  Modelled from the spec: \<open>release(owner)\<close> releases every chunk held by the owner
  and returns them; it fails if the owner is empty.
\<close>

definition release_owner :: "ChunkLocker \<Rightarrow> string \<Rightarrow> error + (Chunk list \<times> ChunkLocker)" where
  "release_owner t owner =
    (if owner = [] then Inl invalid_argument
     else Inr (map fst (filter (\<lambda>e. snd e = owner) t), filter (\<lambda>e. snd e \<noteq> owner) t))"

text \<open>
  The calls a client can make on a locker. A call that throws leaves the table as it
  was; \<open>locker_run\<close> applies a sequence of calls and returns the table after them.
\<close>

datatype locker_call =
    CallLock Chunk string
  | CallReleaseChunk Chunk
  | CallReleaseOwner string
  | CallIsLocked Chunk

fun locker_step :: "ChunkLocker \<Rightarrow> locker_call \<Rightarrow> ChunkLocker" where
  "locker_step t (CallLock c ow) = (case lock t c ow of Inl e \<Rightarrow> t | Inr res \<Rightarrow> snd res)"
| "locker_step t (CallReleaseChunk c) = snd (release t c)"
| "locker_step t (CallReleaseOwner ow) =
     (case release_owner t ow of Inl e \<Rightarrow> t | Inr res \<Rightarrow> snd res)"
| "locker_step t (CallIsLocked c) = t"

definition locker_run :: "ChunkLocker \<Rightarrow> locker_call list \<Rightarrow> ChunkLocker" where
  "locker_run t calls = foldl locker_step t calls"

section \<open>Controller side: Request (Request.cc)\<close>

datatype Request_State = Request_CREATED | Request_IN_PROGRESS | Request_FINISHED

datatype Request_ExtendedState =
    Request_NONE
  | Request_SUCCESS
  | Request_CLIENT_ERROR
  | Request_SERVER_BAD
  | Request_SERVER_ERROR
  | Request_SERVER_QUEUED
  | Request_SERVER_IN_PROGRESS
  | Request_SERVER_IS_CANCELLING
  | Request_SERVER_CANCELLED
  | Request_TIMEOUT_EXPIRED
  | Request_CANCELLED

text \<open>
  The members of class \<open>Request\<close> which its state machine reads or writes. The two
  timers are represented by a flag telling if the expiration timer is armed and by the
  number of times the polling timer was armed. \<open>r_finishImplCalls\<close> and
  \<open>r_notifications\<close> count the calls of the virtual \<open>finishImpl\<close> and of
  \<open>notify\<close>, which spawns the thread invoking the subscriber's callback. Logging
  and the calls to the persistent store do not touch the object and are left out.
\<close>

record Request =
  r_id :: string
  r_keepTracking :: bool
  r_allowDuplicate :: bool
  r_state :: Request_State
  r_extendedState :: Request_ExtendedState
  r_extendedServerStatus :: ExtendedCompletionStatus
  r_duplicateRequestId :: string
  r_finishTime :: nat
  r_expirationTimer :: bool
  r_pollTimerArmed :: nat
  r_finishImplCalls :: nat
  r_notifications :: nat

definition Request_setState ::
  "Request_State \<Rightarrow> Request_ExtendedState \<Rightarrow> 'a Request_scheme \<Rightarrow> 'a Request_scheme"
where
  "Request_setState newState newExtendedState r =
     r\<lparr>r_extendedState := newExtendedState, r_state := newState\<rparr>"

definition Request_notify :: "'a Request_scheme \<Rightarrow> 'a Request_scheme" where
  "Request_notify r = r\<lparr>r_notifications := r_notifications r + 1\<rparr>"

text \<open>\<open>Request::finish\<close>; \<open>now\<close> is the clock read by \<open>setUpdateFinish\<close>.\<close>

definition Request_finish ::
  "nat \<Rightarrow> Request_ExtendedState \<Rightarrow> 'a Request_scheme \<Rightarrow> 'a Request_scheme"
where
  "Request_finish now extendedState r =
    (if r_state r = Request_FINISHED then r
     else
       let r1 = r\<lparr>r_finishTime := now\<rparr>;
           r2 = Request_setState Request_FINISHED extendedState r1;
           r3 = r2\<lparr>r_expirationTimer := False\<rparr>;
           r4 = r3\<lparr>r_finishImplCalls := r_finishImplCalls r3 + 1\<rparr>
       in Request_notify r4)"

text \<open>
  \<open>Request::cancel\<close> and \<open>Request::expired\<close>. The state is tested before and
  after the lock is taken; the body after the lock runs as one step.
\<close>

definition Request_cancel :: "nat \<Rightarrow> 'a Request_scheme \<Rightarrow> 'a Request_scheme" where
  "Request_cancel now r =
    (if r_state r = Request_FINISHED then r
     else if r_state r = Request_FINISHED then r
     else Request_finish now Request_CANCELLED r)"

definition Request_expired :: "nat \<Rightarrow> bool \<Rightarrow> 'a Request_scheme \<Rightarrow> 'a Request_scheme" where
  "Request_expired now operation_aborted r =
    (if operation_aborted then r
     else if r_state r = Request_FINISHED then r
     else if r_state r = Request_FINISHED then r
     else Request_finish now Request_TIMEOUT_EXPIRED r)"

text \<open>
  The events which can drive a request to its final state: a call of \<open>finish\<close> made
  by the request's own handlers, \<open>cancel\<close>, and the expiration timer firing (the flag
  tells if the timer was aborted). Each event carries the time at which it runs. The
  handlers serialise on the request's mutex, so a race between them is one of their
  orders.
\<close>

datatype Request_event =
    Request_Finish Request_ExtendedState
  | Request_Cancel
  | Request_Expired bool

fun Request_step :: "'a Request_scheme \<Rightarrow> nat \<times> Request_event \<Rightarrow> 'a Request_scheme" where
  "Request_step r (now, Request_Finish e) = Request_finish now e r"
| "Request_step r (now, Request_Cancel) = Request_cancel now r"
| "Request_step r (now, Request_Expired ab) = Request_expired now ab r"

definition Request_run ::
  "'a Request_scheme \<Rightarrow> (nat \<times> Request_event) list \<Rightarrow> 'a Request_scheme"
where
  "Request_run r evs = foldl Request_step r evs"

fun Request_terminal :: "nat \<times> Request_event \<Rightarrow> bool" where
  "Request_terminal (now, Request_Expired ab) = (\<not> ab)"
| "Request_terminal (now, ev) = True"

section \<open>Controller side: Job (Job.cc)\<close>

datatype Job_State = Job_CREATED | Job_IN_PROGRESS | Job_FINISHED

datatype Job_ExtendedState =
    Job_NONE
  | Job_SUCCESS
  | Job_CONFIG_ERROR
  | Job_FAILED
  | Job_QSERV_FAILED
  | Job_QSERV_CHUNK_IN_USE
  | Job_TIMEOUT_EXPIRED
  | Job_CANCELLED

text \<open>
  The members of class \<open>Job\<close> which its state machine reads or writes. A timer
  pointer is represented by a flag telling if the timer is armed; \<open>j_notifications\<close>
  counts the calls of \<open>notify\<close>. The virtual functions \<open>startImpl\<close> and
  \<open>cancelImpl\<close> of a subclass are parameters of the functions below;
  \<open>cancelImpl\<close> receives the time at which it runs.
\<close>

record Job =
  j_id :: string
  j_state :: Job_State
  j_extendedState :: Job_ExtendedState
  j_beginTime :: nat
  j_endTime :: nat
  j_heartbeatTimerIvalSec :: nat
  j_expirationIvalSec :: nat
  j_heartbeatTimer :: bool
  j_expirationTimer :: bool
  j_notifications :: nat

text \<open>\<open>Job::setState\<close>: the end time is set only if the state was final already.\<close>

definition Job_setState ::
  "nat \<Rightarrow> Job_State \<Rightarrow> Job_ExtendedState \<Rightarrow> 'a Job_scheme \<Rightarrow> 'a Job_scheme"
where
  "Job_setState now newState newExtendedState j =
    (let j1 = (if j_state j = Job_FINISHED then j\<lparr>j_endTime := now\<rparr> else j)
     in j1\<lparr>j_extendedState := newExtendedState, j_state := newState\<rparr>)"

definition Job_notify :: "'a Job_scheme \<Rightarrow> 'a Job_scheme" where
  "Job_notify j = j\<lparr>j_notifications := j_notifications j + 1\<rparr>"

definition Job_finish ::
  "(nat \<Rightarrow> 'a Job_scheme \<Rightarrow> 'a Job_scheme) \<Rightarrow> nat \<Rightarrow> Job_ExtendedState \<Rightarrow> 'a Job_scheme \<Rightarrow> 'a Job_scheme"
where
  "Job_finish cancelImpl now newExtendedState j =
    (if j_state j = Job_FINISHED then j
     else
       let j1 = Job_setState now Job_FINISHED newExtendedState j;
           j2 = (if newExtendedState \<noteq> Job_SUCCESS then cancelImpl now j1 else j1);
           j3 = j2\<lparr>j_heartbeatTimer := False, j_expirationTimer := False\<rparr>
       in Job_notify j3)"

definition Job_cancel ::
  "(nat \<Rightarrow> 'a Job_scheme \<Rightarrow> 'a Job_scheme) \<Rightarrow> nat \<Rightarrow> 'a Job_scheme \<Rightarrow> 'a Job_scheme"
where
  "Job_cancel cancelImpl now j =
    (if j_state j = Job_FINISHED then j
     else if j_state j = Job_FINISHED then j
     else Job_finish cancelImpl now Job_CANCELLED j)"

definition Job_expired ::
  "(nat \<Rightarrow> 'a Job_scheme \<Rightarrow> 'a Job_scheme) \<Rightarrow> nat \<Rightarrow> bool \<Rightarrow> 'a Job_scheme \<Rightarrow> 'a Job_scheme"
where
  "Job_expired cancelImpl now operation_aborted j =
    (if operation_aborted then j
     else if j_state j = Job_FINISHED then j
     else if j_state j = Job_FINISHED then j
     else Job_finish cancelImpl now Job_TIMEOUT_EXPIRED j)"


datatype Job_event =
    Job_Finish Job_ExtendedState
  | Job_Cancel
  | Job_Expired bool

fun Job_step ::
  "(nat \<Rightarrow> 'a Job_scheme \<Rightarrow> 'a Job_scheme) \<Rightarrow> 'a Job_scheme \<Rightarrow> nat \<times> Job_event \<Rightarrow> 'a Job_scheme"
where
  "Job_step cancelImpl j (now, Job_Finish e) = Job_finish cancelImpl now e j"
| "Job_step cancelImpl j (now, Job_Cancel) = Job_cancel cancelImpl now j"
| "Job_step cancelImpl j (now, Job_Expired ab) = Job_expired cancelImpl now ab j"

definition Job_run ::
  "(nat \<Rightarrow> 'a Job_scheme \<Rightarrow> 'a Job_scheme) \<Rightarrow> 'a Job_scheme \<Rightarrow> (nat \<times> Job_event) list \<Rightarrow> 'a Job_scheme"
where
  "Job_run cancelImpl j evs = foldl (Job_step cancelImpl) j evs"

fun Job_terminal :: "nat \<times> Job_event \<Rightarrow> bool" where
  "Job_terminal (now, Job_Expired ab) = (\<not> ab)"
| "Job_terminal (now, ev) = True"

section \<open>CreateReplicaJob (CreateReplicaJob.cc)\<close>

text \<open>
  \<open>ReplicaInfo\<close> is the payload a replication request brings back; the job only
  stores it. A replication request is a request with a database and the response data.
\<close>

record ReplicaInfo =
  ri_worker :: string
  ri_database :: string
  ri_chunk :: "32 word"

record ReplicationRequest = Request +
  rr_database :: string
  rr_responseData :: ReplicaInfo

text \<open>
  The result of the job. The nested map \<open>chunks[chunk][database][worker]\<close> is an
  association list keyed by the triple; storing under a key replaces the entry.
\<close>

record CreateReplicaJobResult =
  replicas :: "ReplicaInfo list"
  chunks :: "((32 word \<times> string \<times> string) \<times> ReplicaInfo) list"

text \<open>
  The job holds shared pointers to its requests, and the requests change state on
  their own. \<open>crj_heap\<close> is the store of the request objects, \<open>crj_requests\<close> the
  list of pointers (addresses in the store) in the order of \<open>push_back\<close>, and
  \<open>crj_allocated\<close> the next free address. \<open>crj_stopReplication\<close> and
  \<open>crj_qservAddReplica\<close> log the calls made to the controller and to the
  query-serving layer.
\<close>

record CreateReplicaJob = Job +
  crj_databaseFamily :: string
  crj_chunk :: "32 word"
  crj_sourceWorker :: string
  crj_destinationWorker :: string
  crj_requests :: "nat list"
  crj_replicaData :: CreateReplicaJobResult
  crj_heap :: "nat \<Rightarrow> ReplicationRequest"
  crj_allocated :: nat
  crj_stopReplication :: "string list"
  crj_qservAddReplica :: "(32 word \<times> string list \<times> string) list"

text \<open>
  \<open>countRequestStates\<close>: the loop over the collection, then the three counters
  \<open>(numLaunched, numFinished, numSuccess)\<close>.
\<close>

fun countRequestStates_loop ::
  "(nat \<Rightarrow> ReplicationRequest) \<Rightarrow> nat list \<Rightarrow> nat \<times> nat \<Rightarrow> nat \<times> nat"
where
  "countRequestStates_loop h [] (numFinished, numSuccess) = (numFinished, numSuccess)"
| "countRequestStates_loop h (ptr # rest) (numFinished, numSuccess) =
     (if r_state (h ptr) = Request_FINISHED
      then countRequestStates_loop h rest
             (numFinished + 1,
              if r_extendedState (h ptr) = Request_SUCCESS then numSuccess + 1 else numSuccess)
      else countRequestStates_loop h rest (numFinished, numSuccess))"

definition countRequestStates ::
  "(nat \<Rightarrow> ReplicationRequest) \<Rightarrow> nat list \<Rightarrow> nat \<times> nat \<times> nat"
where
  "countRequestStates h collection =
     (let (numFinished, numSuccess) = countRequestStates_loop h collection (0, 0)
      in (length collection, numFinished, numSuccess))"

definition getReplicaData :: "CreateReplicaJob \<Rightarrow> error + CreateReplicaJobResult" where
  "getReplicaData j =
     (if j_state j = Job_FINISHED then Inr (crj_replicaData j) else Inl logic_error)"



text \<open>
  \<open>CreateReplicaJob::cancelImpl\<close>: every request is cancelled, the worker is asked
  to stop a request which is still not finished after that, and the list of requests
  is cleared.
\<close>

fun cancelRequests :: "nat \<Rightarrow> nat list \<Rightarrow> CreateReplicaJob \<Rightarrow> CreateReplicaJob" where
  "cancelRequests now [] j = j"
| "cancelRequests now (ptr # rest) j =
     (let r = Request_cancel now (crj_heap j ptr);
          j1 = j\<lparr>crj_heap := (crj_heap j)(ptr := r)\<rparr>;
          j2 = (if r_state r \<noteq> Request_FINISHED
                then j1\<lparr>crj_stopReplication := crj_stopReplication j1 @ [r_id r]\<rparr>
                else j1)
      in cancelRequests now rest j2)"

definition CreateReplicaJob_cancelImpl :: "nat \<Rightarrow> CreateReplicaJob \<Rightarrow> CreateReplicaJob" where
  "CreateReplicaJob_cancelImpl now j = (cancelRequests now (crj_requests j) j)\<lparr>crj_requests := []\<rparr>"

text \<open>
  \<open>CreateReplicaJob::onRequestFinish\<close>; \<open>request\<close> is the pointer to the request
  reporting its completion, \<open>xrootdAutoNotify\<close> the configuration parameter. The
  databases passed to \<open>qservAddReplica\<close> are the ones stored for the chunk; the
  source lists them in the order of the map's keys, here the latest stored comes first.
\<close>

definition onRequestFinish :: "bool \<Rightarrow> nat \<Rightarrow> nat \<Rightarrow> CreateReplicaJob \<Rightarrow> CreateReplicaJob" where
  "onRequestFinish xrootdAutoNotify now request j =
    (if j_state j = Job_FINISHED then j
     else if j_state j = Job_FINISHED then j
     else
       let r = crj_heap j request;
           key = (crj_chunk j, rr_database r, crj_destinationWorker j);
           d = crj_replicaData j;
           j1 = (if r_extendedState r = Request_SUCCESS
                 then j\<lparr>crj_replicaData :=
                        d\<lparr>replicas := replicas d @ [rr_responseData r],
                          chunks := (key, rr_responseData r) # filter (\<lambda>e. fst e \<noteq> key) (chunks d)\<rparr>\<rparr>
                 else j);
           (numLaunched, numFinished, numSuccess) = countRequestStates (crj_heap j1) (crj_requests j1)
       in if numFinished = numLaunched then
            if numSuccess = numLaunched then
              let databases = remdups (map (\<lambda>e. fst (snd (fst e)))
                                (filter (\<lambda>e. fst (fst e) = crj_chunk j1) (chunks (crj_replicaData j1))));
                  j2 = (if xrootdAutoNotify
                        then j1\<lparr>crj_qservAddReplica := crj_qservAddReplica j1
                                  @ [(crj_chunk j1, databases, crj_destinationWorker j1)]\<rparr>
                        else j1)
              in Job_finish CreateReplicaJob_cancelImpl now Job_SUCCESS j2
            else Job_finish CreateReplicaJob_cancelImpl now Job_FAILED j1
          else j1)"

text \<open>
  What happens around a running job: a child request reaches its final state on its
  own (its \<open>finish\<close> is called with some extended state), or the callback of a child
  is delivered to the job. Callbacks run in threads of their own, so they may be
  delivered in any order and any time after the child has finished.
\<close>

datatype CreateReplicaJob_event =
    ChildFinishes nat Request_ExtendedState
  | Callback nat

fun CreateReplicaJob_step ::
  "bool \<Rightarrow> CreateReplicaJob \<Rightarrow> nat \<times> CreateReplicaJob_event \<Rightarrow> CreateReplicaJob"
where
  "CreateReplicaJob_step an j (now, ChildFinishes ptr e) =
     j\<lparr>crj_heap := (crj_heap j)(ptr := Request_finish now e (crj_heap j ptr))\<rparr>"
| "CreateReplicaJob_step an j (now, Callback ptr) = onRequestFinish an now ptr j"

definition CreateReplicaJob_run ::
  "bool \<Rightarrow> CreateReplicaJob \<Rightarrow> (nat \<times> CreateReplicaJob_event) list \<Rightarrow> CreateReplicaJob"
where
  "CreateReplicaJob_run an j evs = foldl (CreateReplicaJob_step an) j evs"





text \<open>Concrete objects used to exercise the theorems.\<close>

definition exampleRequest :: "string \<Rightarrow> Request_State \<Rightarrow> Request_ExtendedState \<Rightarrow> ReplicationRequest" where
  "exampleRequest name st ext =
    \<lparr>r_id = name, r_keepTracking = True, r_allowDuplicate = True,
     r_state = st, r_extendedState = ext, r_extendedServerStatus = EXT_STATUS_NONE,
     r_duplicateRequestId = [], r_finishTime = 0, r_expirationTimer = True,
     r_pollTimerArmed = 0, r_finishImplCalls = 0, r_notifications = 0,
     rr_database = name,
     rr_responseData = \<lparr>ri_worker = ''w2'', ri_database = name, ri_chunk = 7\<rparr>\<rparr>"

definition exampleJob :: "Job_State \<Rightarrow> nat list \<Rightarrow> CreateReplicaJob" where
  "exampleJob st ps =
    \<lparr>j_id = ''job'', j_state = st, j_extendedState = Job_NONE,
     j_beginTime = 0, j_endTime = 0, j_heartbeatTimerIvalSec = 0, j_expirationIvalSec = 60,
     j_heartbeatTimer = False, j_expirationTimer = False, j_notifications = 0,
     crj_databaseFamily = ''F'', crj_chunk = 7,
     crj_sourceWorker = ''w1'', crj_destinationWorker = ''w2'',
     crj_requests = ps, crj_replicaData = \<lparr>replicas = [], chunks = []\<rparr>,
     crj_heap = (\<lambda>a. exampleRequest (if a = 0 then ''d1'' else ''d2'') Request_IN_PROGRESS Request_NONE),
     crj_allocated = length ps, crj_stopReplication = [], crj_qservAddReplica = []\<rparr>"


section \<open>DeleteRequest (DeleteRequest.cc)\<close>

text \<open>
  Modelled from the spec: the completion status a worker reports is declared in the
  protocol definition, which is missing; the enumerators are the seven which section 6
  of the specification lists and the sources use. \<open>proto_OTHER\<close> stands for a
  value outside of the enumeration, which is what the \<open>default\<close> branch of a
  \<open>switch\<close> over the status receives.
\<close>

datatype ReplicationStatus =
    proto_SUCCESS
  | proto_QUEUED
  | proto_IN_PROGRESS
  | proto_IS_CANCELLING
  | proto_BAD
  | proto_FAILED
  | proto_CANCELLED
  | proto_OTHER int

text \<open>
  The response to a deletion request, with the fields \<open>analyze\<close> reads. The
  extended status is kept in the form \<open>translate\<close> gives it; performance counters
  are opaque numbers.
\<close>

record ReplicationResponseDelete =
  msg_status :: ReplicationStatus
  msg_status_ext :: ExtendedCompletionStatus
  msg_performance :: nat
  msg_target_performance :: "nat option"
  msg_replica_info :: ReplicaInfo
  msg_request :: "(string \<times> 32 word) option"
  msg_duplicate_request_id :: string

record DeleteRequest = Request +
  dr_database :: string
  dr_chunk :: "32 word"
  dr_workerPerformance :: nat
  dr_replicaInfo :: ReplicaInfo
  dr_targetRequestParams :: "(string \<times> 32 word) option"
  dr_savedReplicaInfo :: "ReplicaInfo list"

text \<open>\<open>DeleteRequest::wait\<close> arms the polling timer, which later fires \<open>awaken\<close>.\<close>

definition DeleteRequest_wait :: "DeleteRequest \<Rightarrow> DeleteRequest" where
  "DeleteRequest_wait r = r\<lparr>r_pollTimerArmed := r_pollTimerArmed r + 1\<rparr>"

text \<open>
  \<open>DeleteRequest::analyze\<close>. \<open>dr_savedReplicaInfo\<close> logs the calls of
  \<open>saveReplicaInfo\<close>.
\<close>

definition DeleteRequest_analyze ::
  "nat \<Rightarrow> bool \<Rightarrow> ReplicationResponseDelete \<Rightarrow> DeleteRequest \<Rightarrow> error + DeleteRequest"
where
  "DeleteRequest_analyze now success message r =
    (if r_state r = Request_FINISHED then Inr r
     else if r_state r = Request_FINISHED then Inr r
     else if \<not> success then Inr (Request_finish now Request_CLIENT_ERROR r)
     else
       let r1 = r\<lparr>r_extendedServerStatus := msg_status_ext message\<rparr>;
           r2 = (case msg_target_performance message of
                   Some p \<Rightarrow> r1\<lparr>dr_workerPerformance := p\<rparr>
                 | None \<Rightarrow> r1\<lparr>dr_workerPerformance := msg_performance message\<rparr>);
           r3 = r2\<lparr>dr_replicaInfo := msg_replica_info message\<rparr>;
           r4 = (case msg_request message of
                   Some params \<Rightarrow> r3\<lparr>dr_targetRequestParams := Some params\<rparr>
                 | None \<Rightarrow> r3)
       in (case msg_status message of
             proto_SUCCESS \<Rightarrow>
               Inr (Request_finish now Request_SUCCESS
                     (r4\<lparr>dr_savedReplicaInfo := dr_savedReplicaInfo r4 @ [dr_replicaInfo r4]\<rparr>))
           | proto_QUEUED \<Rightarrow>
               (if r_keepTracking r4 then Inr (DeleteRequest_wait r4)
                else Inr (Request_finish now Request_SERVER_QUEUED r4))
           | proto_IN_PROGRESS \<Rightarrow>
               (if r_keepTracking r4 then Inr (DeleteRequest_wait r4)
                else Inr (Request_finish now Request_SERVER_IN_PROGRESS r4))
           | proto_IS_CANCELLING \<Rightarrow>
               (if r_keepTracking r4 then Inr (DeleteRequest_wait r4)
                else Inr (Request_finish now Request_SERVER_IS_CANCELLING r4))
           | proto_BAD \<Rightarrow>
               (if r_extendedServerStatus r4 = EXT_STATUS_DUPLICATE
                then
                  let r5 = r4\<lparr>r_duplicateRequestId := msg_duplicate_request_id message\<rparr>
                  in if r_allowDuplicate r5 \<and> r_keepTracking r5
                     then Inr (DeleteRequest_wait r5)
                     else Inr (Request_finish now Request_SERVER_BAD r5)
                else Inr (Request_finish now Request_SERVER_BAD r4))
           | proto_FAILED \<Rightarrow> Inr (Request_finish now Request_SERVER_ERROR r4)
           | proto_CANCELLED \<Rightarrow> Inr (Request_finish now Request_SERVER_CANCELLED r4)
           | proto_OTHER v \<Rightarrow> Inl logic_error))"

text \<open>
  Two outcomes of \<open>analyze\<close> on a request \<open>r\<close>: the request is finished with a given
  extended state and its subscriber notified once; or the request stays in its state
  with the polling timer armed once more and nobody notified.
\<close>

definition finishesWith ::
  "DeleteRequest \<Rightarrow> Request_ExtendedState \<Rightarrow> error + DeleteRequest \<Rightarrow> bool"
where
  "finishesWith r ext res =
    (case res of
       Inl e \<Rightarrow> False
     | Inr r' \<Rightarrow> r_state r' = Request_FINISHED \<and> r_extendedState r' = ext
                \<and> r_notifications r' = r_notifications r + 1
                \<and> r_pollTimerArmed r' = r_pollTimerArmed r)"

definition rearmsPollTimer :: "DeleteRequest \<Rightarrow> error + DeleteRequest \<Rightarrow> bool" where
  "rearmsPollTimer r res =
    (case res of
       Inl e \<Rightarrow> False
     | Inr r' \<Rightarrow> r_state r' = r_state r \<and> r_extendedState r' = r_extendedState r
                \<and> r_notifications r' = r_notifications r
                \<and> r_pollTimerArmed r' = r_pollTimerArmed r + 1)"

definition exampleDeleteRequest :: "bool \<Rightarrow> bool \<Rightarrow> DeleteRequest" where
  "exampleDeleteRequest keepTracking allowDuplicate =
    \<lparr>r_id = ''r1'', r_keepTracking = keepTracking, r_allowDuplicate = allowDuplicate,
     r_state = Request_IN_PROGRESS, r_extendedState = Request_NONE,
     r_extendedServerStatus = EXT_STATUS_NONE,
     r_duplicateRequestId = [], r_finishTime = 0, r_expirationTimer = True,
     r_pollTimerArmed = 0, r_finishImplCalls = 0, r_notifications = 0,
     dr_database = ''d1'', dr_chunk = 7, dr_workerPerformance = 0,
     dr_replicaInfo = \<lparr>ri_worker = ''w1'', ri_database = ''d1'', ri_chunk = 7\<rparr>,
     dr_targetRequestParams = None, dr_savedReplicaInfo = []\<rparr>"

definition exampleResponse :: "ReplicationStatus \<Rightarrow> ExtendedCompletionStatus \<Rightarrow> ReplicationResponseDelete" where
  "exampleResponse st ext =
    \<lparr>msg_status = st, msg_status_ext = ext, msg_performance = 3,
     msg_target_performance = None,
     msg_replica_info = \<lparr>ri_worker = ''w1'', ri_database = ''d1'', ri_chunk = 7\<rparr>,
     msg_request = None, msg_duplicate_request_id = ''r0''\<rparr>"

section \<open>MessengerConnector (MessengerConnector.h, MessengerConnector.cc)\<close>

datatype MessengerConnector_State = STATE_INITIAL | STATE_CONNECTING | STATE_COMMUNICATING

text \<open>
  The completion code an asynchronous handler receives: success, the operation was
  aborted, or some other error.
\<close>

datatype error_code = ec_success | ec_operation_aborted | ec_failure

text \<open>
  A request wrapper (\<open>MessageWrapperBase\<close>): its identifier, the completion status
  reported to the subscriber and the serialised request.
\<close>

record MessageWrapper =
  mw_id :: string
  mw_success :: bool
  mw_requestBuffer :: "8 word list"

text \<open>
  The members of the connector. \<open>mc_requests\<close> is the queue \<open>_requests\<close> with
  its front first. The asynchronous operations started on the resolver and the socket
  are logged: \<open>mc_wire\<close> lists the identifiers of the requests handed to
  \<open>async_write\<close>, in this order, and the three counters count the resolve, connect and
  read operations started. \<open>mc_timer\<close> tells if the restart timer is armed.
  \<open>mc_notified\<close> lists the notifications made through \<open>parseAndNotify\<close> with the
  completion status each one carries.
\<close>

record MessengerConnector =
  mc_state :: MessengerConnector_State
  mc_requests :: "MessageWrapper list"
  mc_currentRequest :: "MessageWrapper option"
  mc_timer :: bool
  mc_wire :: "string list"
  mc_asyncResolve :: nat
  mc_asyncConnect :: nat
  mc_asyncRead :: nat
  mc_notified :: "(string \<times> bool) list"

definition MessengerConnector_find :: "MessengerConnector \<Rightarrow> string \<Rightarrow> MessageWrapper option" where
  "MessengerConnector_find c ident = List.find (\<lambda>ptr. mw_id ptr = ident) (mc_requests c)"

definition resolve :: "MessengerConnector \<Rightarrow> MessengerConnector" where
  "resolve c =
    (if mc_state c \<noteq> STATE_INITIAL then c
     else c\<lparr>mc_asyncResolve := mc_asyncResolve c + 1, mc_state := STATE_CONNECTING\<rparr>)"

definition restart :: "MessengerConnector \<Rightarrow> MessengerConnector" where
  "restart c =
    resolve (case mc_state c of
               STATE_INITIAL \<Rightarrow> c
             | STATE_CONNECTING \<Rightarrow> c\<lparr>mc_timer := False, mc_state := STATE_INITIAL\<rparr>
             | STATE_COMMUNICATING \<Rightarrow> c\<lparr>mc_timer := False, mc_state := STATE_INITIAL\<rparr>)"

definition sendRequest :: "MessengerConnector \<Rightarrow> MessengerConnector" where
  "sendRequest c =
    (if mc_currentRequest c \<noteq> None then c
     else (case mc_requests c of
             [] \<Rightarrow> c
           | front # rest \<Rightarrow>
               c\<lparr>mc_currentRequest := Some front, mc_requests := rest,
                 mc_wire := mc_wire c @ [mw_id front]\<rparr>))"

definition sendImpl :: "MessageWrapper \<Rightarrow> MessengerConnector \<Rightarrow> error + MessengerConnector" where
  "sendImpl ptr c =
    (if MessengerConnector_find c (mw_id ptr) \<noteq> None then Inl logic_error
     else
       let c1 = c\<lparr>mc_requests := mc_requests c @ [ptr]\<rparr>
       in Inr (case mc_state c1 of
                 STATE_INITIAL \<Rightarrow> resolve c1
               | STATE_CONNECTING \<Rightarrow> c1
               | STATE_COMMUNICATING \<Rightarrow> sendRequest c1))"

definition MessengerConnector_cancel :: "string \<Rightarrow> MessengerConnector \<Rightarrow> MessengerConnector" where
  "MessengerConnector_cancel ident c =
    (let c1 = c\<lparr>mc_requests := filter (\<lambda>ptr. mw_id ptr \<noteq> ident) (mc_requests c)\<rparr>
     in (case mc_currentRequest c1 of
           None \<Rightarrow> c1
         | Some cur \<Rightarrow>
             if mw_id cur = ident
             then (let c2 = c1\<lparr>mc_currentRequest := None\<rparr>
                   in if mc_state c2 = STATE_COMMUNICATING then restart c2 else c2)
             else c1))"

definition waitBeforeRestart :: "MessengerConnector \<Rightarrow> MessengerConnector" where
  "waitBeforeRestart c = c\<lparr>mc_timer := True\<rparr>"

definition connect :: "MessengerConnector \<Rightarrow> MessengerConnector" where
  "connect c = c\<lparr>mc_asyncConnect := mc_asyncConnect c + 1\<rparr>"

definition resolved :: "error_code \<Rightarrow> MessengerConnector \<Rightarrow> MessengerConnector" where
  "resolved ec c =
    (if ec = ec_operation_aborted then c
     else if ec \<noteq> ec_success then waitBeforeRestart c
     else connect c)"

definition connected :: "error_code \<Rightarrow> MessengerConnector \<Rightarrow> MessengerConnector" where
  "connected ec c =
    (if ec = ec_operation_aborted then c
     else if ec \<noteq> ec_success then waitBeforeRestart c
     else sendRequest (c\<lparr>mc_state := STATE_COMMUNICATING\<rparr>))"

definition awakenForRestart :: "error_code \<Rightarrow> MessengerConnector \<Rightarrow> MessengerConnector" where
  "awakenForRestart ec c =
    (if ec = ec_operation_aborted then c
     else if mc_state c \<noteq> STATE_CONNECTING then c
     else restart c)"

definition receiveResponse :: "MessengerConnector \<Rightarrow> MessengerConnector" where
  "receiveResponse c = c\<lparr>mc_asyncRead := mc_asyncRead c + 1\<rparr>"

definition requestSent :: "error_code \<Rightarrow> MessengerConnector \<Rightarrow> MessengerConnector" where
  "requestSent ec c =
    (if ec = ec_operation_aborted then restart c
     else (case mc_currentRequest c of
             Some cur \<Rightarrow>
               if ec \<noteq> ec_success
               then restart (c\<lparr>mc_requests := cur # mc_requests c, mc_currentRequest := None\<rparr>)
               else receiveResponse c
           | None \<Rightarrow> c))"

text \<open>
  What the three synchronous reads of \<open>responseReceived\<close> meet, in their order: the
  header cannot be read; the header carries another identifier than the request's
  (\<open>syncReadVerifyHeader\<close> throws); the frame cannot be read; the body cannot be
  read; all three succeed, and then the flag tells if \<open>parseAndNotify\<close> can parse
  the body (if it cannot, the subscriber is told that the exchange failed).
\<close>

datatype sync_read =
    HeaderReadFailed
  | HeaderIdMismatch
  | FrameReadFailed
  | BodyReadFailed
  | ReadSucceeded bool

text \<open>
  \<open>MessengerConnector::responseReceived\<close>. The current request is taken out first;
  its owner is notified at the end, outside of the lock, with \<open>success\<close> set only
  if everything was read.
\<close>

definition responseReceived ::
  "error_code \<Rightarrow> sync_read \<Rightarrow> MessengerConnector \<Rightarrow> error + MessengerConnector"
where
  "responseReceived ec reads c =
    (if ec = ec_operation_aborted then Inr (restart c)
     else (case mc_currentRequest c of
             Some request2notify \<Rightarrow>
               (let c1 = c\<lparr>mc_currentRequest := None\<rparr>;
                    failed = (\<lambda>c2. Inr (c2\<lparr>mc_notified := mc_notified c2
                                @ [(mw_id request2notify, mw_success request2notify)]\<rparr>))
                in if ec \<noteq> ec_success then failed (restart c1)
                   else (case reads of
                           HeaderReadFailed \<Rightarrow> failed (restart c1)
                         | HeaderIdMismatch \<Rightarrow> Inl logic_error
                         | FrameReadFailed \<Rightarrow> failed (restart c1)
                         | BodyReadFailed \<Rightarrow> failed (restart c1)
                         | ReadSucceeded parses \<Rightarrow>
                             (let c2 = sendRequest c1
                              in Inr (c2\<lparr>mc_notified := mc_notified c2
                                        @ [(mw_id request2notify, parses)]\<rparr>))))
           | None \<Rightarrow>
               if ec \<noteq> ec_success then Inr (restart c) else Inr (sendRequest c)))"

text \<open>
  The calls and completion handlers which drive a connector; \<open>MessengerConnector_run\<close>
  applies a sequence of them and stops at the first exception.
\<close>

datatype MessengerConnector_event =
    EvSend MessageWrapper
  | EvCancel string
  | EvResolved error_code
  | EvConnected error_code
  | EvAwakenForRestart error_code
  | EvRequestSent error_code
  | EvResponseReceived error_code sync_read

fun MessengerConnector_step ::
  "MessengerConnector \<Rightarrow> MessengerConnector_event \<Rightarrow> error + MessengerConnector"
where
  "MessengerConnector_step c (EvSend ptr) = sendImpl ptr c"
| "MessengerConnector_step c (EvCancel ident) = Inr (MessengerConnector_cancel ident c)"
| "MessengerConnector_step c (EvResolved ec) = Inr (resolved ec c)"
| "MessengerConnector_step c (EvConnected ec) = Inr (connected ec c)"
| "MessengerConnector_step c (EvAwakenForRestart ec) = Inr (awakenForRestart ec c)"
| "MessengerConnector_step c (EvRequestSent ec) = Inr (requestSent ec c)"
| "MessengerConnector_step c (EvResponseReceived ec reads) = responseReceived ec reads c"

fun MessengerConnector_run ::
  "MessengerConnector \<Rightarrow> MessengerConnector_event list \<Rightarrow> error + MessengerConnector"
where
  "MessengerConnector_run c [] = Inr c"
| "MessengerConnector_run c (ev # evs) =
     (case MessengerConnector_step c ev of
        Inl e \<Rightarrow> Inl e
      | Inr c' \<Rightarrow> MessengerConnector_run c' evs)"

text \<open>The events of an exchange in which nothing fails and nothing is cancelled.\<close>

fun failureFree :: "MessengerConnector_event \<Rightarrow> bool" where
  "failureFree (EvSend ptr) = True"
| "failureFree (EvCancel ident) = False"
| "failureFree (EvResolved ec) = (ec = ec_success)"
| "failureFree (EvConnected ec) = (ec = ec_success)"
| "failureFree (EvAwakenForRestart ec) = False"
| "failureFree (EvRequestSent ec) = (ec = ec_success)"
| "failureFree (EvResponseReceived ec reads) = (ec = ec_success \<and> reads = ReadSucceeded True)"

text \<open>The identifiers submitted by a sequence of events, in the order of submission.\<close>

fun submitted :: "MessengerConnector_event list \<Rightarrow> string list" where
  "submitted [] = []"
| "submitted (EvSend ptr # evs) = mw_id ptr # submitted evs"
| "submitted (ev # evs) = submitted evs"

text \<open>A connector as its constructor leaves it, and a request wrapper as \<open>send\<close> makes it.\<close>

definition newConnector :: MessengerConnector where
  "newConnector =
    \<lparr>mc_state = STATE_INITIAL, mc_requests = [], mc_currentRequest = None, mc_timer = False,
     mc_wire = [], mc_asyncResolve = 0, mc_asyncConnect = 0, mc_asyncRead = 0,
     mc_notified = []\<rparr>"

definition newWrapper :: "string \<Rightarrow> MessageWrapper" where
  "newWrapper ident = \<lparr>mw_id = ident, mw_success = False, mw_requestBuffer = []\<rparr>"

text \<open>
  The invariant of a connector in an exchange without failures, for the identifiers
  \<open>sub\<close> submitted so far: what went on the wire followed by what is queued is what
  was submitted, in this order; the owners notified are those of the transmissions
  which are over; and the current request is the last one put on the wire.
\<close>

definition fifoInv :: "MessengerConnector \<Rightarrow> string list \<Rightarrow> bool" where
  "fifoInv c sub =
    (mc_wire c @ map mw_id (mc_requests c) = sub
     \<and> (case mc_currentRequest c of
          None \<Rightarrow> map fst (mc_notified c) = mc_wire c
        | Some cur \<Rightarrow> map fst (mc_notified c) = butlast (mc_wire c)
                     \<and> mc_wire c \<noteq> [] \<and> last (mc_wire c) = mw_id cur))"

section \<open>Worker side: WorkerProcessor (WorkerProcessor.cc)\<close>

text \<open>
  Modelled from the spec: the extended status of the protocol and the response message
  are declared in the protocol definition, which is missing. The response has the
  fields which the admission of a request fills in (section 6 of the specification:
  status, extended status, performance, and the optional duplicate request id).
\<close>

datatype ReplicationStatusExt = proto_ext_NONE | proto_ext_INVALID_PARAM | proto_ext_DUPLICATE

record ReplicationResponse =
  resp_status :: ReplicationStatus
  resp_status_ext :: ReplicationStatusExt
  resp_performance :: "WorkerPerformance option"
  resp_duplicate_request_id :: "string option"

text \<open>The request message of a replication or deletion (the latter has no source worker).\<close>

record ReplicationRequestMessage =
  req_priority :: int
  req_database :: string
  req_chunk :: "32 word"
  req_worker :: string

text \<open>
  The queues of the processor. \<open>wp_newRequests\<close> lists the priority queue in the
  order in which the processor iterates over it.
\<close>

record WorkerProcessor =
  wp_worker :: string
  wp_newRequests :: "WorkerRequest list"
  wp_inProgressRequests :: "WorkerRequest list"
  wp_finishedRequests :: "WorkerRequest list"

text \<open>
  Modelled from the spec: \<open>WorkerProcessor::setDefaultResponse\<close> is defined in the
  class declaration (WorkerProcessor.h), which is missing. Following its calls and the
  response format of section 6 of the specification it stores the status and the
  extended status in the response.
\<close>

definition setDefaultResponse ::
  "ReplicationResponse \<Rightarrow> ReplicationStatus \<Rightarrow> ReplicationStatusExt \<Rightarrow> ReplicationResponse"
where
  "setDefaultResponse response status ext = response\<lparr>resp_status := status, resp_status_ext := ext\<rparr>"

text \<open>
  \<open>ifDuplicateRequest\<close>: the flag \<open>isDuplicate\<close> computed from the dynamic type of
  the queued request \<open>p\<close>, then the response.
\<close>

definition isDuplicate :: "WorkerRequest \<Rightarrow> ReplicationRequestMessage \<Rightarrow> bool" where
  "isDuplicate p request =
    (case wr_dynamic p of
       WorkerReplicationRequest database chunk sourceWorker \<Rightarrow>
         database = req_database request \<and> chunk = req_chunk request
     | WorkerDeleteRequest database chunk \<Rightarrow>
         database = req_database request \<and> chunk = req_chunk request
     | _ \<Rightarrow> False)"

definition ifDuplicateRequest ::
  "ReplicationResponse \<Rightarrow> WorkerRequest \<Rightarrow> ReplicationRequestMessage \<Rightarrow> bool \<times> ReplicationResponse"
where
  "ifDuplicateRequest response p request =
    (if isDuplicate p request
     then (True, (setDefaultResponse response proto_BAD proto_ext_DUPLICATE)
                   \<lparr>resp_duplicate_request_id := Some (wr_id p)\<rparr>)
     else (False, response))"

text \<open>
  The loop over one queue: the response of the first request found to be a duplicate,
  or nothing if the loop ends.
\<close>

fun scanForDuplicate ::
  "ReplicationResponse \<Rightarrow> WorkerRequest list \<Rightarrow> ReplicationRequestMessage \<Rightarrow> ReplicationResponse option"
where
  "scanForDuplicate response [] request = None"
| "scanForDuplicate response (ptr # rest) request =
     (case ifDuplicateRequest response ptr request of
        (True, response') \<Rightarrow> Some response'
      | (False, response') \<Rightarrow> scanForDuplicate response' rest request)"

text \<open>
  The constructor of \<open>WorkerRequest\<close>, for the derived class \<open>dyn\<close>. The factory
  itself is a parameter of the functions below: it returns the new request, or throws
  (\<open>invalid_argument\<close> if a parameter is not valid in the present configuration).
\<close>

definition newWorkerRequest :: "string \<Rightarrow> int \<Rightarrow> WorkerRequestType \<Rightarrow> WorkerRequest" where
  "newWorkerRequest ident priority dyn =
    \<lparr>wr_id = ident, wr_priority = priority, wr_status = STATUS_NONE,
     wr_extendedStatus = EXT_STATUS_NONE,
     wr_performance = \<lparr>receive_time = 0, start_time = 0, finish_time = 0\<rparr>,
     wr_dynamic = dyn\<rparr>"

text \<open>
  The admission of a request which is not a duplicate, common to both functions below:
  the request made by the factory is pushed to the queue of new requests and the
  response reports \<open>QUEUED\<close>; an \<open>invalid_argument\<close> thrown by the factory is
  caught and reported as \<open>BAD\<close>, \<open>INVALID_PARAM\<close>. \<open>push\<close> is the insertion into
  the priority queue, whose class is not part of the analysed sources. \<open>setInfo\<close>
  throws a logic error if the request has not the expected dynamic type, which
  \<open>rightType\<close> tests.
\<close>

definition admit ::
  "(WorkerRequest \<Rightarrow> WorkerRequest list \<Rightarrow> WorkerRequest list) \<Rightarrow> (WorkerRequest \<Rightarrow> bool)
    \<Rightarrow> error + WorkerRequest \<Rightarrow> ReplicationResponse \<Rightarrow> WorkerProcessor
    \<Rightarrow> error + (WorkerProcessor \<times> ReplicationResponse)"
where
  "admit push rightType created response wp =
    (case created of
       Inl invalid_argument \<Rightarrow>
         Inr (wp, setDefaultResponse response proto_BAD proto_ext_INVALID_PARAM)
     | Inl logic_error \<Rightarrow> Inl logic_error
     | Inr ptr \<Rightarrow>
         if rightType ptr
         then Inr (wp\<lparr>wp_newRequests := push ptr (wp_newRequests wp)\<rparr>,
                   response\<lparr>resp_status := proto_QUEUED, resp_status_ext := proto_ext_NONE,
                            resp_performance := Some (wr_performance ptr)\<rparr>)
         else Inl logic_error)"

definition enqueueForReplication ::
  "(WorkerRequest \<Rightarrow> WorkerRequest list \<Rightarrow> WorkerRequest list)
    \<Rightarrow> (string \<Rightarrow> string \<Rightarrow> int \<Rightarrow> string \<Rightarrow> 32 word \<Rightarrow> string \<Rightarrow> error + WorkerRequest)
    \<Rightarrow> string \<Rightarrow> ReplicationRequestMessage \<Rightarrow> ReplicationResponse \<Rightarrow> WorkerProcessor
    \<Rightarrow> error + (WorkerProcessor \<times> ReplicationResponse)"
where
  "enqueueForReplication push createReplicationRequest ident request response wp =
    (case scanForDuplicate response (wp_newRequests wp) request of
       Some response' \<Rightarrow> Inr (wp, response')
     | None \<Rightarrow>
        (case scanForDuplicate response (wp_inProgressRequests wp) request of
           Some response' \<Rightarrow> Inr (wp, response')
         | None \<Rightarrow>
             admit push
               (\<lambda>ptr. case wr_dynamic ptr of WorkerReplicationRequest d c s \<Rightarrow> True | _ \<Rightarrow> False)
               (createReplicationRequest (wp_worker wp) ident (req_priority request)
                  (req_database request) (req_chunk request) (req_worker request))
               response wp))"

definition enqueueForDeletion ::
  "(WorkerRequest \<Rightarrow> WorkerRequest list \<Rightarrow> WorkerRequest list)
    \<Rightarrow> (string \<Rightarrow> string \<Rightarrow> int \<Rightarrow> string \<Rightarrow> 32 word \<Rightarrow> error + WorkerRequest)
    \<Rightarrow> string \<Rightarrow> ReplicationRequestMessage \<Rightarrow> ReplicationResponse \<Rightarrow> WorkerProcessor
    \<Rightarrow> error + (WorkerProcessor \<times> ReplicationResponse)"
where
  "enqueueForDeletion push createDeleteRequest ident request response wp =
    (case scanForDuplicate response (wp_newRequests wp) request of
       Some response' \<Rightarrow> Inr (wp, response')
     | None \<Rightarrow>
        (case scanForDuplicate response (wp_inProgressRequests wp) request of
           Some response' \<Rightarrow> Inr (wp, response')
         | None \<Rightarrow>
             admit push
               (\<lambda>ptr. case wr_dynamic ptr of WorkerDeleteRequest d c \<Rightarrow> True | _ \<Rightarrow> False)
               (createDeleteRequest (wp_worker wp) ident (req_priority request)
                  (req_database request) (req_chunk request))
               response wp))"

text \<open>
  Concrete objects used to exercise the theorems: the factory of the test technology,
  which builds the base classes and accepts every parameter; an insertion which keeps
  the queue ordered by descending priority; an empty response; and a processor.
\<close>

definition exampleCreateReplicationRequest ::
  "string \<Rightarrow> string \<Rightarrow> int \<Rightarrow> string \<Rightarrow> 32 word \<Rightarrow> string \<Rightarrow> error + WorkerRequest"
where
  "exampleCreateReplicationRequest worker ident priority database chunk sourceWorker =
     Inr (newWorkerRequest ident priority (WorkerReplicationRequest database chunk sourceWorker))"

definition exampleCreateDeleteRequest ::
  "string \<Rightarrow> string \<Rightarrow> int \<Rightarrow> string \<Rightarrow> 32 word \<Rightarrow> error + WorkerRequest"
where
  "exampleCreateDeleteRequest worker ident priority database chunk =
     Inr (newWorkerRequest ident priority (WorkerDeleteRequest database chunk))"

fun examplePush :: "WorkerRequest \<Rightarrow> WorkerRequest list \<Rightarrow> WorkerRequest list" where
  "examplePush ptr [] = [ptr]"
| "examplePush ptr (q # rest) =
     (if wr_priority q < wr_priority ptr then ptr # q # rest else q # examplePush ptr rest)"

definition emptyResponse :: ReplicationResponse where
  "emptyResponse =
    \<lparr>resp_status = proto_SUCCESS, resp_status_ext = proto_ext_NONE,
     resp_performance = None, resp_duplicate_request_id = None\<rparr>"

definition exampleProcessor :: "WorkerRequest list \<Rightarrow> WorkerRequest list \<Rightarrow> WorkerProcessor" where
  "exampleProcessor new inProgress =
    \<lparr>wp_worker = ''w1'', wp_newRequests = new, wp_inProgressRequests = inProgress,
     wp_finishedRequests = []\<rparr>"

section \<open>Theorems\<close>

subsection \<open>WorkerRequest::cancel\<close>

text \<open>
  C10. For every worker request, \<open>cancel\<close> never throws and maps the status as follows:
  \<open>STATUS_NONE\<close> and \<open>STATUS_CANCELLED\<close> become \<open>STATUS_CANCELLED\<close> (a request that
  has not started is cancelled at once, without passing \<open>STATUS_IS_CANCELLING\<close>);
  \<open>STATUS_IN_PROGRESS\<close> and \<open>STATUS_IS_CANCELLING\<close> become \<open>STATUS_IS_CANCELLING\<close>;
  \<open>STATUS_SUCCEEDED\<close> and \<open>STATUS_FAILED\<close> are left as they are, and then the whole
  request object is unchanged.
\<close>

theorem WorkerRequest_cancel_table:
  "\<exists>r'. WorkerRequest_cancel now dflt r = Inr r'
        \<and> (wr_status r = STATUS_NONE \<longrightarrow> wr_status r' = STATUS_CANCELLED)
        \<and> (wr_status r = STATUS_CANCELLED \<longrightarrow> wr_status r' = STATUS_CANCELLED)
        \<and> (wr_status r = STATUS_IN_PROGRESS \<longrightarrow> wr_status r' = STATUS_IS_CANCELLING)
        \<and> (wr_status r = STATUS_IS_CANCELLING \<longrightarrow> wr_status r' = STATUS_IS_CANCELLING)
        \<and> (wr_status r = STATUS_SUCCEEDED \<or> wr_status r = STATUS_FAILED \<longrightarrow> r' = r)"
  by (cases "wr_status r") (simp_all add: WorkerRequest_cancel_def setStatus_def Let_def)

theorem WorkerRequest_cancel_table_witness:
  "(\<exists>r'. WorkerRequest_cancel 7 EXT_STATUS_NONE
          \<lparr>wr_id = ''a'', wr_priority = 0, wr_status = STATUS_NONE,
           wr_extendedStatus = EXT_STATUS_NONE,
           wr_performance = \<lparr>receive_time = 1, start_time = 0, finish_time = 0\<rparr>,
           wr_dynamic = WorkerDeleteRequest ''db'' 3\<rparr> = Inr r'
        \<and> wr_status r' = STATUS_CANCELLED)
   \<and> (\<exists>r'. WorkerRequest_cancel 7 EXT_STATUS_NONE
          \<lparr>wr_id = ''b'', wr_priority = 0, wr_status = STATUS_IN_PROGRESS,
           wr_extendedStatus = EXT_STATUS_NONE,
           wr_performance = \<lparr>receive_time = 1, start_time = 2, finish_time = 0\<rparr>,
           wr_dynamic = WorkerDeleteRequest ''db'' 3\<rparr> = Inr r'
        \<and> wr_status r' = STATUS_IS_CANCELLING)
   \<and> (\<exists>r'. WorkerRequest_cancel 7 EXT_STATUS_NONE
          \<lparr>wr_id = ''c'', wr_priority = 0, wr_status = STATUS_FAILED,
           wr_extendedStatus = EXT_STATUS_NONE,
           wr_performance = \<lparr>receive_time = 1, start_time = 2, finish_time = 3\<rparr>,
           wr_dynamic = WorkerDeleteRequest ''db'' 3\<rparr> = Inr r'
        \<and> wr_status r' = STATUS_FAILED \<and> wr_id r' = ''c'')"
  using
    WorkerRequest_cancel_table [of 7 EXT_STATUS_NONE
      "\<lparr>wr_id = ''a'', wr_priority = 0, wr_status = STATUS_NONE,
        wr_extendedStatus = EXT_STATUS_NONE,
        wr_performance = \<lparr>receive_time = 1, start_time = 0, finish_time = 0\<rparr>,
        wr_dynamic = WorkerDeleteRequest ''db'' 3\<rparr>"]
    WorkerRequest_cancel_table [of 7 EXT_STATUS_NONE
      "\<lparr>wr_id = ''b'', wr_priority = 0, wr_status = STATUS_IN_PROGRESS,
        wr_extendedStatus = EXT_STATUS_NONE,
        wr_performance = \<lparr>receive_time = 1, start_time = 2, finish_time = 0\<rparr>,
        wr_dynamic = WorkerDeleteRequest ''db'' 3\<rparr>"]
    WorkerRequest_cancel_table [of 7 EXT_STATUS_NONE
      "\<lparr>wr_id = ''c'', wr_priority = 0, wr_status = STATUS_FAILED,
        wr_extendedStatus = EXT_STATUS_NONE,
        wr_performance = \<lparr>receive_time = 1, start_time = 2, finish_time = 3\<rparr>,
        wr_dynamic = WorkerDeleteRequest ''db'' 3\<rparr>"]
  by auto

subsection \<open>ChunkLocker\<close>

lemma map_of_filter_other_key:
  "c' \<noteq> c \<Longrightarrow> map_of (filter (\<lambda>e. fst e \<noteq> c') t) c = map_of t c"
  by (induction t) auto

lemma map_of_filter_other_owner:
  "map_of t c = Some ow \<Longrightarrow> ow \<noteq> ow' \<Longrightarrow> map_of (filter (\<lambda>e. snd e \<noteq> ow') t) c = Some ow"
  by (induction t) (auto split: if_splits)

lemma locker_step_keeps_owner:
  assumes "map_of t c = Some ow"
    and "call \<noteq> CallReleaseChunk c" and "call \<noteq> CallReleaseOwner ow"
  shows "map_of (locker_step t call) c = Some ow"
proof (cases call)
  case (CallLock c' ow')
  then show ?thesis using assms(1)
    by (auto simp: lock_def split: option.splits)
next
  case (CallReleaseChunk c')
  then show ?thesis using assms(1,2)
    by (simp add: release_def map_of_filter_other_key)
next
  case (CallReleaseOwner ow')
  then show ?thesis using assms(1,3)
    by (auto simp: release_owner_def map_of_filter_other_owner)
next
  case (CallIsLocked c')
  then show ?thesis using assms(1) by simp
qed

lemma locker_run_keeps_owner:
  assumes "map_of t c = Some ow"
    and "\<forall>call \<in> set calls. call \<noteq> CallReleaseChunk c \<and> call \<noteq> CallReleaseOwner ow"
  shows "map_of (locker_run t calls) c = Some ow"
  using assms unfolding locker_run_def
proof (induction calls arbitrary: t)
  case Nil
  then show ?case by simp
next
  case (Cons call calls)
  have "map_of (locker_step t call) c = Some ow"
    using Cons.prems by (intro locker_step_keeps_owner) auto
  then show ?case using Cons by simp
qed

lemma lock_true_owner:
  "lock t c ow = Inr (True, t1) \<Longrightarrow> map_of t1 c = Some ow"
  by (auto simp: lock_def split: if_splits option.splits)

text \<open>
  C8. For every locker, all chunks \<open>c\<close> and all owners \<open>o1\<close>, \<open>o2\<close> with
  \<open>o1 \<noteq> o2\<close>: if \<open>lock(c, o1)\<close> returns true, then after any calls other than
  \<open>release(c)\<close> and \<open>release(o1)\<close> the call \<open>lock(c, o2)\<close> returns false and
  leaves the table as it is, while \<open>lock(c, o1)\<close> by the same owner returns true
  again; and \<open>lock\<close> with an empty owner throws \<open>invalid_argument\<close>. The second
  owner is a valid, non-empty one: with an empty owner the call throws, as the last
  part says.
\<close>

theorem lock_mutual_exclusion:
  assumes "lock t c o1 = Inr (True, t1)"
    and "o1 \<noteq> o2" and "o2 \<noteq> []"
    and "\<forall>call \<in> set calls. call \<noteq> CallReleaseChunk c \<and> call \<noteq> CallReleaseOwner o1"
  shows "lock (locker_run t1 calls) c o2 = Inr (False, locker_run t1 calls)
       \<and> lock (locker_run t1 calls) c o1 = Inr (True, locker_run t1 calls)
       \<and> lock t' c' [] = Inl invalid_argument"
proof -
  have held: "map_of (locker_run t1 calls) c = Some o1"
    using lock_true_owner [OF assms(1)] assms(4) by (rule locker_run_keeps_owner)
  have "o1 \<noteq> []" using assms(1) by (auto simp: lock_def split: if_splits)
  with held assms(2,3) show ?thesis by (simp add: lock_def)
qed

theorem lock_mutual_exclusion_witness:
  "lock [] \<lparr>databaseFamily = ''F'', number = 5\<rparr> ''jobA''
     = Inr (True, [(\<lparr>databaseFamily = ''F'', number = 5\<rparr>, ''jobA'')])
   \<and> lock (locker_run [(\<lparr>databaseFamily = ''F'', number = 5\<rparr>, ''jobA'')]
              [CallLock \<lparr>databaseFamily = ''F'', number = 6\<rparr> ''jobB'',
               CallReleaseOwner ''jobB''])
        \<lparr>databaseFamily = ''F'', number = 5\<rparr> ''jobB''
     = Inr (False, locker_run [(\<lparr>databaseFamily = ''F'', number = 5\<rparr>, ''jobA'')]
              [CallLock \<lparr>databaseFamily = ''F'', number = 6\<rparr> ''jobB'',
               CallReleaseOwner ''jobB''])"
proof -
  have a: "lock [] \<lparr>databaseFamily = ''F'', number = 5\<rparr> ''jobA''
     = Inr (True, [(\<lparr>databaseFamily = ''F'', number = 5\<rparr>, ''jobA'')])"
    by (simp add: lock_def)
  have b: "''jobA'' \<noteq> ''jobB''" by simp
  have c: "''jobB'' \<noteq> []" by simp
  have d: "\<forall>call \<in> set [CallLock \<lparr>databaseFamily = ''F'', number = 6\<rparr> ''jobB'',
               CallReleaseOwner ''jobB''].
             call \<noteq> CallReleaseChunk \<lparr>databaseFamily = ''F'', number = 5\<rparr>
           \<and> call \<noteq> CallReleaseOwner ''jobA''"
    by simp
  show ?thesis using a lock_mutual_exclusion [OF a b c d] by simp
qed

subsection \<open>Requests and jobs reach their final state once\<close>

lemma Request_step_finished:
  "r_state r = Request_FINISHED \<Longrightarrow> Request_step r ev = r"
  by (cases ev rule: Request_terminal.cases)
     (simp_all add: Request_finish_def Request_cancel_def Request_expired_def)

lemma Request_run_finished:
  "r_state r = Request_FINISHED \<Longrightarrow> Request_run r evs = r"
  unfolding Request_run_def
  by (induction evs) (simp_all add: Request_step_finished)

lemma Request_step_not_terminal:
  "\<not> Request_terminal ev \<Longrightarrow> Request_step r ev = r"
  by (cases ev rule: Request_terminal.cases) (simp_all add: Request_expired_def)

lemma Request_step_terminal:
  assumes "r_state r \<noteq> Request_FINISHED" and "Request_terminal ev"
  shows "r_state (Request_step r ev) = Request_FINISHED
       \<and> r_notifications (Request_step r ev) = r_notifications r + 1"
  using assms
  by (cases ev rule: Request_terminal.cases)
     (simp_all add: Request_finish_def Request_cancel_def Request_expired_def
        Request_setState_def Request_notify_def Let_def)

lemma Request_run_terminal:
  assumes "r_state r \<noteq> Request_FINISHED" and "\<exists>ev \<in> set evs. Request_terminal ev"
  shows "r_state (Request_run r evs) = Request_FINISHED
       \<and> r_notifications (Request_run r evs) = r_notifications r + 1"
  using assms
proof (induction evs arbitrary: r)
  case Nil
  then show ?case by simp
next
  case (Cons ev evs)
  have unfold: "Request_run r (ev # evs) = Request_run (Request_step r ev) evs"
    by (simp add: Request_run_def)
  show ?case
  proof (cases "Request_terminal ev")
    case True
    from Request_step_terminal [OF Cons.prems(1) True]
    show ?thesis by (simp add: unfold Request_run_finished)
  next
    case False
    then have "Request_step r ev = r" by (rule Request_step_not_terminal)
    moreover from False Cons.prems(2) have "\<exists>ev \<in> set evs. Request_terminal ev" by auto
    ultimately show ?thesis using Cons.IH [OF Cons.prems(1)] by (simp add: unfold)
  qed
qed

lemma Job_step_finished:
  "j_state j = Job_FINISHED \<Longrightarrow> Job_step c j ev = j"
  by (cases ev rule: Job_terminal.cases)
     (simp_all add: Job_finish_def Job_cancel_def Job_expired_def)

lemma Job_run_finished:
  "j_state j = Job_FINISHED \<Longrightarrow> Job_run c j evs = j"
  unfolding Job_run_def
  by (induction evs) (simp_all add: Job_step_finished)

lemma Job_step_not_terminal:
  "\<not> Job_terminal ev \<Longrightarrow> Job_step c j ev = j"
  by (cases ev rule: Job_terminal.cases) (simp_all add: Job_expired_def)

lemma Job_finish_notifies:
  assumes "\<And>t x. j_state (c t x) = j_state x \<and> j_notifications (c t x) = j_notifications x"
    and "j_state j \<noteq> Job_FINISHED"
  shows "j_state (Job_finish c now e j) = Job_FINISHED
       \<and> j_extendedState (Job_finish c now e j) = j_extendedState (if e \<noteq> Job_SUCCESS then c now (Job_setState now Job_FINISHED e j) else Job_setState now Job_FINISHED e j)
       \<and> j_notifications (Job_finish c now e j) = j_notifications j + 1"
  using assms(2)
  by (simp add: Job_finish_def Job_setState_def Job_notify_def Let_def assms(1))

lemma Job_step_terminal:
  assumes "\<And>t x. j_state (c t x) = j_state x \<and> j_notifications (c t x) = j_notifications x"
    and "j_state j \<noteq> Job_FINISHED" and "Job_terminal ev"
  shows "j_state (Job_step c j ev) = Job_FINISHED
       \<and> j_notifications (Job_step c j ev) = j_notifications j + 1"
  using assms(2,3) Job_finish_notifies [OF assms(1,2)]
  by (cases ev rule: Job_terminal.cases)
     (simp_all add: Job_cancel_def Job_expired_def)

lemma Job_run_terminal:
  assumes "\<And>t x. j_state (c t x) = j_state x \<and> j_notifications (c t x) = j_notifications x"
    and "j_state j \<noteq> Job_FINISHED" and "\<exists>ev \<in> set evs. Job_terminal ev"
  shows "j_state (Job_run c j evs) = Job_FINISHED
       \<and> j_notifications (Job_run c j evs) = j_notifications j + 1"
  using assms(2,3)
proof (induction evs arbitrary: j)
  case Nil
  then show ?case by simp
next
  case (Cons ev evs)
  have unfold: "Job_run c j (ev # evs) = Job_run c (Job_step c j ev) evs"
    by (simp add: Job_run_def)
  show ?case
  proof (cases "Job_terminal ev")
    case True
    from Job_step_terminal [OF assms(1) Cons.prems(1) True]
    show ?thesis by (simp add: unfold Job_run_finished)
  next
    case False
    then have "Job_step c j ev = j" by (rule Job_step_not_terminal)
    moreover from False Cons.prems(2) have "\<exists>ev \<in> set evs. Job_terminal ev" by auto
    ultimately show ?thesis using Cons.IH [OF Cons.prems(1)] by (simp add: unfold)
  qed
qed

lemma cancelRequests_base:
  "j_state (cancelRequests now ps j) = j_state j
   \<and> j_extendedState (cancelRequests now ps j) = j_extendedState j
   \<and> j_notifications (cancelRequests now ps j) = j_notifications j
   \<and> crj_replicaData (cancelRequests now ps j) = crj_replicaData j"
  by (induction ps arbitrary: j) (simp_all add: Let_def)

lemma CreateReplicaJob_cancelImpl_base:
  "j_state (CreateReplicaJob_cancelImpl now j) = j_state j
   \<and> j_extendedState (CreateReplicaJob_cancelImpl now j) = j_extendedState j
   \<and> j_notifications (CreateReplicaJob_cancelImpl now j) = j_notifications j
   \<and> crj_replicaData (CreateReplicaJob_cancelImpl now j) = crj_replicaData j"
  by (simp add: CreateReplicaJob_cancelImpl_def cancelRequests_base)

text \<open>
  C1. For every request and every job in state \<open>FINISHED\<close>, a call of \<open>finish\<close>
  or \<open>cancel\<close> (and any further sequence of events) leaves the whole object as it is,
  so the state and the extended state are unchanged and nobody is notified again. And
  for an object which is not finished, whatever events race to finish it (calls of
  \<open>finish\<close>, \<open>cancel\<close>, the expiration timer), as soon as one of them is not an
  aborted timer the object ends in state \<open>FINISHED\<close> and \<open>notify\<close> has been called
  exactly once. For a job this needs the subclass's \<open>cancelImpl\<close> to leave the
  state and the notification count of the job alone.
\<close>

theorem terminal_idempotence:
  assumes "\<And>t x. j_state (cancelImpl t x) = j_state x \<and> j_notifications (cancelImpl t x) = j_notifications x"
  shows "(r_state r = Request_FINISHED \<longrightarrow>
            Request_finish now e r = r \<and> Request_cancel now r = r \<and> Request_run r evs = r)
       \<and> (j_state j = Job_FINISHED \<longrightarrow>
            Job_finish cancelImpl now e' j = j \<and> Job_cancel cancelImpl now j = j
            \<and> Job_run cancelImpl j evs' = j)
       \<and> (r_state r \<noteq> Request_FINISHED \<and> (\<exists>ev \<in> set evs. Request_terminal ev) \<longrightarrow>
            r_state (Request_run r evs) = Request_FINISHED
            \<and> r_notifications (Request_run r evs) = r_notifications r + 1)
       \<and> (j_state j \<noteq> Job_FINISHED \<and> (\<exists>ev \<in> set evs'. Job_terminal ev) \<longrightarrow>
            j_state (Job_run cancelImpl j evs') = Job_FINISHED
            \<and> j_notifications (Job_run cancelImpl j evs') = j_notifications j + 1)"
proof -
  have "r_state r = Request_FINISHED \<longrightarrow>
            Request_finish now e r = r \<and> Request_cancel now r = r \<and> Request_run r evs = r"
    by (simp add: Request_finish_def Request_cancel_def Request_run_finished)
  moreover have "j_state j = Job_FINISHED \<longrightarrow>
            Job_finish cancelImpl now e' j = j \<and> Job_cancel cancelImpl now j = j
            \<and> Job_run cancelImpl j evs' = j"
    by (simp add: Job_finish_def Job_cancel_def Job_run_finished)
  moreover have "r_state r \<noteq> Request_FINISHED \<and> (\<exists>ev \<in> set evs. Request_terminal ev) \<longrightarrow>
            r_state (Request_run r evs) = Request_FINISHED
            \<and> r_notifications (Request_run r evs) = r_notifications r + 1"
    using Request_run_terminal by blast
  moreover have "j_state j \<noteq> Job_FINISHED \<and> (\<exists>ev \<in> set evs'. Job_terminal ev) \<longrightarrow>
            j_state (Job_run cancelImpl j evs') = Job_FINISHED
            \<and> j_notifications (Job_run cancelImpl j evs') = j_notifications j + 1"
    using Job_run_terminal [where c = cancelImpl, OF assms] by blast
  ultimately show ?thesis by blast
qed


theorem terminal_idempotence_witness:
  "r_state (Request_run (exampleRequest ''d1'' Request_IN_PROGRESS Request_NONE)
      [(1, Request_Expired True), (2, Request_Cancel), (3, Request_Finish Request_SUCCESS),
       (4, Request_Expired False)]) = Request_FINISHED
   \<and> r_notifications (Request_run (exampleRequest ''d1'' Request_IN_PROGRESS Request_NONE)
      [(1, Request_Expired True), (2, Request_Cancel), (3, Request_Finish Request_SUCCESS),
       (4, Request_Expired False)]) = 1
   \<and> j_state (Job_run CreateReplicaJob_cancelImpl (exampleJob Job_IN_PROGRESS [0, Suc 0])
      [(1, Job_Expired False), (2, Job_Finish Job_SUCCESS), (3, Job_Cancel)]) = Job_FINISHED
   \<and> j_notifications (Job_run CreateReplicaJob_cancelImpl (exampleJob Job_IN_PROGRESS [0, Suc 0])
      [(1, Job_Expired False), (2, Job_Finish Job_SUCCESS), (3, Job_Cancel)]) = 1"
proof -
  have h: "\<And>t x. j_state (CreateReplicaJob_cancelImpl t x) = j_state x
              \<and> j_notifications (CreateReplicaJob_cancelImpl t x) = j_notifications x"
    by (simp add: CreateReplicaJob_cancelImpl_base)
  show ?thesis
    using terminal_idempotence [OF h,
        where r = "exampleRequest ''d1'' Request_IN_PROGRESS Request_NONE"
          and evs = "[(1, Request_Expired True), (2, Request_Cancel),
                      (3, Request_Finish Request_SUCCESS), (4, Request_Expired False)]"
          and j = "exampleJob Job_IN_PROGRESS [0, Suc 0]"
          and evs' = "[(1, Job_Expired False), (2, Job_Finish Job_SUCCESS), (3, Job_Cancel)]"]
    by (simp add: exampleRequest_def exampleJob_def)
qed

subsection \<open>Fan-in of CreateReplicaJob\<close>


















subsection \<open>The result of CreateReplicaJob\<close>

lemma getReplicaData_guard:
  "getReplicaData j = (if j_state j = Job_FINISHED then Inr (crj_replicaData j) else Inl logic_error)"
  by (simp add: getReplicaData_def)

text \<open>
  C9. Asking the job for its result before it is \<open>FINISHED\<close> throws a logic error,
  and once it is \<open>FINISHED\<close> the result is returned, as the claim says. But the
  result does not always hold the data of the children which succeeded.
  \<open>onRequestFinish\<close> decides that the job is over from the states of the requests,
  not from the callbacks it has received, and each callback runs in a thread of its
  own. Take two children: the first finishes with \<open>SUCCESS\<close>, the second with
  \<open>SERVER_ERROR\<close>, and the callback of the second is delivered first. It sees both
  requests finished and ends the job as \<open>FAILED\<close>; the callback of the first then
  returns at once, the job being finished, and the data of the child which succeeded
  never enters the result. With the two callbacks in the other order the data is
  there.
\<close>

theorem getReplicaData_loses_succeeded_child:
  "getReplicaData (CreateReplicaJob_run True (exampleJob Job_IN_PROGRESS [0, Suc 0])
       [(2, ChildFinishes 0 Request_SUCCESS), (3, ChildFinishes (Suc 0) Request_SERVER_ERROR)])
     = Inl logic_error
   \<and> j_state (CreateReplicaJob_run True (exampleJob Job_IN_PROGRESS [0, Suc 0])
       [(2, ChildFinishes 0 Request_SUCCESS), (3, ChildFinishes (Suc 0) Request_SERVER_ERROR),
        (4, Callback (Suc 0)), (5, Callback 0)]) = Job_FINISHED
   \<and> j_extendedState (CreateReplicaJob_run True (exampleJob Job_IN_PROGRESS [0, Suc 0])
       [(2, ChildFinishes 0 Request_SUCCESS), (3, ChildFinishes (Suc 0) Request_SERVER_ERROR),
        (4, Callback (Suc 0)), (5, Callback 0)]) = Job_FAILED
   \<and> r_state (crj_heap (CreateReplicaJob_run True (exampleJob Job_IN_PROGRESS [0, Suc 0])
       [(2, ChildFinishes 0 Request_SUCCESS), (3, ChildFinishes (Suc 0) Request_SERVER_ERROR),
        (4, Callback (Suc 0)), (5, Callback 0)]) 0) = Request_FINISHED
   \<and> r_extendedState (crj_heap (CreateReplicaJob_run True (exampleJob Job_IN_PROGRESS [0, Suc 0])
       [(2, ChildFinishes 0 Request_SUCCESS), (3, ChildFinishes (Suc 0) Request_SERVER_ERROR),
        (4, Callback (Suc 0)), (5, Callback 0)]) 0) = Request_SUCCESS
   \<and> getReplicaData (CreateReplicaJob_run True (exampleJob Job_IN_PROGRESS [0, Suc 0])
       [(2, ChildFinishes 0 Request_SUCCESS), (3, ChildFinishes (Suc 0) Request_SERVER_ERROR),
        (4, Callback (Suc 0)), (5, Callback 0)])
     = Inr \<lparr>replicas = [], chunks = []\<rparr>
   \<and> getReplicaData (CreateReplicaJob_run True (exampleJob Job_IN_PROGRESS [0, Suc 0])
       [(2, ChildFinishes 0 Request_SUCCESS), (3, ChildFinishes (Suc 0) Request_SERVER_ERROR),
        (4, Callback 0), (5, Callback (Suc 0))])
     = Inr \<lparr>replicas = [\<lparr>ri_worker = ''w2'', ri_database = ''d1'', ri_chunk = 7\<rparr>],
            chunks = [((7, ''d1'', ''w2''),
                       \<lparr>ri_worker = ''w2'', ri_database = ''d1'', ri_chunk = 7\<rparr>)]\<rparr>"
  by (simp add: getReplicaData_def CreateReplicaJob_run_def onRequestFinish_def
      countRequestStates_def exampleJob_def exampleRequest_def Request_finish_def
      Request_setState_def Request_notify_def Request_cancel_def Job_finish_def
      Job_setState_def Job_notify_def CreateReplicaJob_cancelImpl_def Let_def)

subsection \<open>DeleteRequest::analyze\<close>

lemma analyze_finish:
  "r_state r \<noteq> Request_FINISHED \<Longrightarrow>
   r_notifications r = n \<Longrightarrow> r_pollTimerArmed r = k \<Longrightarrow>
   r_state (Request_finish now ext r) = Request_FINISHED
   \<and> r_extendedState (Request_finish now ext r) = ext
   \<and> r_notifications (Request_finish now ext r) = n + 1
   \<and> r_pollTimerArmed (Request_finish now ext r) = k"
  by (simp add: Request_finish_def Request_setState_def Request_notify_def Let_def)

text \<open>
  C6. As the claim states it, every status other than the six it lists raises a
  logic error. The status \<open>BAD\<close> is not among the six, and \<open>analyze\<close> handles it
  without raising: here the request is finished with \<open>SERVER_BAD\<close>.
\<close>

theorem analyze_counterexample:
  "DeleteRequest_analyze 5 True (exampleResponse proto_BAD EXT_STATUS_INVALID_PARAM)
      (exampleDeleteRequest True True) \<noteq> Inl logic_error
   \<and> finishesWith (exampleDeleteRequest True True) Request_SERVER_BAD
        (DeleteRequest_analyze 5 True (exampleResponse proto_BAD EXT_STATUS_INVALID_PARAM)
           (exampleDeleteRequest True True))"
  by (simp add: DeleteRequest_analyze_def exampleResponse_def exampleDeleteRequest_def
      finishesWith_def Request_finish_def Request_setState_def Request_notify_def Let_def)

text \<open>
  C6, amended. For a request which is not finished yet, \<open>analyze\<close> of a successful
  exchange does the following. Status \<open>SUCCESS\<close>: \<open>finish(SUCCESS)\<close>. \<open>QUEUED\<close>,
  \<open>IN_PROGRESS\<close>, \<open>IS_CANCELLING\<close>: the poll timer is armed again if
  \<open>keepTracking\<close> is set, otherwise the request is finished with the corresponding
  \<open>SERVER_*\<close> state. \<open>FAILED\<close>: \<open>finish(SERVER_ERROR)\<close>, never
  \<open>CLIENT_ERROR\<close>, which is what a failed exchange gives. \<open>CANCELLED\<close>:
  \<open>finish(SERVER_CANCELLED)\<close>. \<open>BAD\<close>: the poll timer is armed again if the
  extended status is \<open>DUPLICATE\<close> and both \<open>allowDuplicate\<close> and \<open>keepTracking\<close>
  are set, otherwise \<open>finish(SERVER_BAD)\<close>. A value outside of the enumeration
  raises a logic error. On a request which is finished already \<open>analyze\<close> does
  nothing.
\<close>

theorem analyze_dispatch:
  assumes "r_state r \<noteq> Request_FINISHED"
  shows "(msg_status m = proto_SUCCESS \<longrightarrow>
            finishesWith r Request_SUCCESS (DeleteRequest_analyze now True m r))
       \<and> (msg_status m = proto_QUEUED \<longrightarrow>
            (if r_keepTracking r then rearmsPollTimer r (DeleteRequest_analyze now True m r)
             else finishesWith r Request_SERVER_QUEUED (DeleteRequest_analyze now True m r)))
       \<and> (msg_status m = proto_IN_PROGRESS \<longrightarrow>
            (if r_keepTracking r then rearmsPollTimer r (DeleteRequest_analyze now True m r)
             else finishesWith r Request_SERVER_IN_PROGRESS (DeleteRequest_analyze now True m r)))
       \<and> (msg_status m = proto_IS_CANCELLING \<longrightarrow>
            (if r_keepTracking r then rearmsPollTimer r (DeleteRequest_analyze now True m r)
             else finishesWith r Request_SERVER_IS_CANCELLING (DeleteRequest_analyze now True m r)))
       \<and> (msg_status m = proto_FAILED \<longrightarrow>
            finishesWith r Request_SERVER_ERROR (DeleteRequest_analyze now True m r)
            \<and> \<not> finishesWith r Request_CLIENT_ERROR (DeleteRequest_analyze now True m r))
       \<and> (msg_status m = proto_CANCELLED \<longrightarrow>
            finishesWith r Request_SERVER_CANCELLED (DeleteRequest_analyze now True m r))
       \<and> (msg_status m = proto_BAD \<longrightarrow>
            (if msg_status_ext m = EXT_STATUS_DUPLICATE \<and> r_allowDuplicate r \<and> r_keepTracking r
             then rearmsPollTimer r (DeleteRequest_analyze now True m r)
             else finishesWith r Request_SERVER_BAD (DeleteRequest_analyze now True m r)))
       \<and> (msg_status m = proto_OTHER v \<longrightarrow> DeleteRequest_analyze now True m r = Inl logic_error)
       \<and> finishesWith r Request_CLIENT_ERROR (DeleteRequest_analyze now False m r)
       \<and> (r_state r' = Request_FINISHED \<longrightarrow> DeleteRequest_analyze now success m r' = Inr r')"
proof -
  note defs = DeleteRequest_analyze_def finishesWith_def rearmsPollTimer_def
    DeleteRequest_wait_def Let_def analyze_finish
  have "finishesWith r Request_CLIENT_ERROR (DeleteRequest_analyze now False m r)"
    using assms by (simp add: defs)
  moreover have "r_state r' = Request_FINISHED \<longrightarrow> DeleteRequest_analyze now success m r' = Inr r'"
    by (simp add: DeleteRequest_analyze_def)
  moreover have "msg_status m = proto_SUCCESS \<longrightarrow>
            finishesWith r Request_SUCCESS (DeleteRequest_analyze now True m r)"
    using assms by (simp add: defs split: option.splits)
  moreover have "msg_status m = proto_QUEUED \<longrightarrow>
            (if r_keepTracking r then rearmsPollTimer r (DeleteRequest_analyze now True m r)
             else finishesWith r Request_SERVER_QUEUED (DeleteRequest_analyze now True m r))"
    using assms by (simp add: defs split: option.splits)
  moreover have "msg_status m = proto_IN_PROGRESS \<longrightarrow>
            (if r_keepTracking r then rearmsPollTimer r (DeleteRequest_analyze now True m r)
             else finishesWith r Request_SERVER_IN_PROGRESS (DeleteRequest_analyze now True m r))"
    using assms by (simp add: defs split: option.splits)
  moreover have "msg_status m = proto_IS_CANCELLING \<longrightarrow>
            (if r_keepTracking r then rearmsPollTimer r (DeleteRequest_analyze now True m r)
             else finishesWith r Request_SERVER_IS_CANCELLING (DeleteRequest_analyze now True m r))"
    using assms by (simp add: defs split: option.splits)
  moreover have "msg_status m = proto_FAILED \<longrightarrow>
            finishesWith r Request_SERVER_ERROR (DeleteRequest_analyze now True m r)
            \<and> \<not> finishesWith r Request_CLIENT_ERROR (DeleteRequest_analyze now True m r)"
    using assms by (simp add: defs split: option.splits)
  moreover have "msg_status m = proto_CANCELLED \<longrightarrow>
            finishesWith r Request_SERVER_CANCELLED (DeleteRequest_analyze now True m r)"
    using assms by (simp add: defs split: option.splits)
  moreover have "msg_status m = proto_BAD \<longrightarrow>
            (if msg_status_ext m = EXT_STATUS_DUPLICATE \<and> r_allowDuplicate r \<and> r_keepTracking r
             then rearmsPollTimer r (DeleteRequest_analyze now True m r)
             else finishesWith r Request_SERVER_BAD (DeleteRequest_analyze now True m r))"
    using assms by (cases "msg_status_ext m = EXT_STATUS_DUPLICATE")
      (auto simp: defs split: option.splits)
  moreover have "msg_status m = proto_OTHER v \<longrightarrow> DeleteRequest_analyze now True m r = Inl logic_error"
    using assms by (simp add: defs split: option.splits)
  ultimately show ?thesis by blast
qed

theorem analyze_dispatch_witness:
  "finishesWith (exampleDeleteRequest True False) Request_SERVER_ERROR
     (DeleteRequest_analyze 5 True (exampleResponse proto_FAILED EXT_STATUS_NONE)
        (exampleDeleteRequest True False))
   \<and> rearmsPollTimer (exampleDeleteRequest True False)
     (DeleteRequest_analyze 5 True (exampleResponse proto_QUEUED EXT_STATUS_NONE)
        (exampleDeleteRequest True False))
   \<and> finishesWith (exampleDeleteRequest False False) Request_SERVER_QUEUED
     (DeleteRequest_analyze 5 True (exampleResponse proto_QUEUED EXT_STATUS_NONE)
        (exampleDeleteRequest False False))
   \<and> DeleteRequest_analyze 5 True (exampleResponse (proto_OTHER 42) EXT_STATUS_NONE)
        (exampleDeleteRequest True False) = Inl logic_error"
proof -
  have a: "r_state (exampleDeleteRequest True False) \<noteq> Request_FINISHED"
    by (simp add: exampleDeleteRequest_def)
  have b: "r_state (exampleDeleteRequest False False) \<noteq> Request_FINISHED"
    by (simp add: exampleDeleteRequest_def)
  show ?thesis
    using analyze_dispatch [OF a, of "exampleResponse proto_FAILED EXT_STATUS_NONE" 5]
      analyze_dispatch [OF a, of "exampleResponse proto_QUEUED EXT_STATUS_NONE" 5]
      analyze_dispatch [OF b, of "exampleResponse proto_QUEUED EXT_STATUS_NONE" 5]
      analyze_dispatch [OF a, of "exampleResponse (proto_OTHER 42) EXT_STATUS_NONE" 5 42]
    by (simp add: exampleResponse_def exampleDeleteRequest_def)
qed

subsection \<open>MessengerConnector: one request in flight, served in the order of submission\<close>

lemma fifoInv_sendRequest:
  "fifoInv c sub \<Longrightarrow> fifoInv (sendRequest c) sub"
  by (auto simp: fifoInv_def sendRequest_def split: option.splits list.splits)

lemma fifoInv_resolve:
  "fifoInv c sub \<Longrightarrow> fifoInv (resolve c) sub"
  by (auto simp: fifoInv_def resolve_def split: option.splits)

lemma fifoInv_enqueue:
  "fifoInv c sub \<Longrightarrow> fifoInv (c\<lparr>mc_requests := mc_requests c @ [ptr]\<rparr>) (sub @ [mw_id ptr])"
  by (auto simp: fifoInv_def split: option.splits)

lemma fifoInv_sendImpl:
  assumes "fifoInv c sub" and "sendImpl ptr c = Inr c'"
  shows "fifoInv c' (sub @ [mw_id ptr])"
proof -
  let ?c1 = "c\<lparr>mc_requests := mc_requests c @ [ptr]\<rparr>"
  have inv1: "fifoInv ?c1 (sub @ [mw_id ptr])" using assms(1) by (rule fifoInv_enqueue)
  have "c' = (case mc_state ?c1 of
                 STATE_INITIAL \<Rightarrow> resolve ?c1
               | STATE_CONNECTING \<Rightarrow> ?c1
               | STATE_COMMUNICATING \<Rightarrow> sendRequest ?c1)"
    using assms(2) by (simp add: sendImpl_def Let_def split: if_splits)
  then show ?thesis
    using inv1 fifoInv_resolve [OF inv1] fifoInv_sendRequest [OF inv1]
    by (cases "mc_state c") simp_all
qed

lemma fifoInv_state:
  "fifoInv c sub \<Longrightarrow> fifoInv (c\<lparr>mc_state := st\<rparr>) sub"
  by (auto simp: fifoInv_def split: option.splits)

lemma fifoInv_responseReceived:
  assumes "fifoInv c sub" and "responseReceived ec_success (ReadSucceeded True) c = Inr c'"
  shows "fifoInv c' sub"
proof (cases "mc_currentRequest c")
  case None
  then have "c' = sendRequest c" using assms(2) by (simp add: responseReceived_def)
  then show ?thesis using assms(1) by (simp add: fifoInv_sendRequest)
next
  case (Some cur)
  then show ?thesis using assms
    by (auto simp: responseReceived_def fifoInv_def sendRequest_def Let_def
        snoc_eq_iff_butlast split: list.splits)
qed

lemma fifoInv_step:
  assumes "fifoInv c sub" and "failureFree ev" and "MessengerConnector_step c ev = Inr c'"
  shows "fifoInv c' (sub @ submitted [ev])"
proof (cases ev)
  case (EvSend ptr)
  then show ?thesis using assms fifoInv_sendImpl by simp
next
  case (EvCancel ident)
  then show ?thesis using assms by simp
next
  case (EvResolved ec)
  then show ?thesis using assms
    by (auto simp: resolved_def connect_def fifoInv_def split: option.splits)
next
  case (EvConnected ec)
  then show ?thesis using assms fifoInv_sendRequest [OF fifoInv_state [OF assms(1)]]
    by (auto simp: connected_def)
next
  case (EvAwakenForRestart ec)
  then show ?thesis using assms by simp
next
  case (EvRequestSent ec)
  then show ?thesis using assms
    by (auto simp: requestSent_def receiveResponse_def fifoInv_def split: option.splits)
next
  case (EvResponseReceived ec reads)
  then show ?thesis using assms fifoInv_responseReceived by simp
qed

lemma submitted_Cons: "submitted (ev # evs) = submitted [ev] @ submitted evs"
  by (cases ev) simp_all

lemma fifoInv_run:
  assumes "fifoInv c sub" and "\<forall>ev \<in> set evs. failureFree ev"
    and "MessengerConnector_run c evs = Inr c'"
  shows "fifoInv c' (sub @ submitted evs)"
  using assms
proof (induction evs arbitrary: c sub)
  case Nil
  then show ?case by simp
next
  case (Cons ev evs)
  from Cons.prems(3) obtain c1 where
    step: "MessengerConnector_step c ev = Inr c1" and run: "MessengerConnector_run c1 evs = Inr c'"
    by (auto split: sum.splits)
  have "fifoInv c1 (sub @ submitted [ev])"
    using Cons.prems(1,2) step by (intro fifoInv_step) auto
  from Cons.IH [OF this _ run] Cons.prems(2)
  have "fifoInv c' ((sub @ submitted [ev]) @ submitted evs)" by simp
  then show ?case using submitted_Cons [of ev evs] by simp
qed

lemma step_starts_at_most_one:
  assumes "MessengerConnector_step c ev = Inr c'" and "mc_wire c' \<noteq> mc_wire c"
  shows "\<exists>p. mc_currentRequest c' = Some p \<and> mc_wire c' = mc_wire c @ [mw_id p]"
proof (cases ev)
  case (EvSend ptr)
  then show ?thesis using assms
    by (auto simp: sendImpl_def sendRequest_def resolve_def Let_def
        split: if_splits MessengerConnector_State.splits list.splits)
next
  case (EvCancel ident)
  then show ?thesis using assms
    by (auto simp: MessengerConnector_cancel_def restart_def resolve_def Let_def
        split: if_splits option.splits MessengerConnector_State.splits)
next
  case (EvResolved ec)
  then show ?thesis using assms
    by (auto simp: resolved_def waitBeforeRestart_def connect_def split: if_splits)
next
  case (EvConnected ec)
  then show ?thesis using assms
    by (auto simp: connected_def waitBeforeRestart_def sendRequest_def
        split: if_splits list.splits)
next
  case (EvAwakenForRestart ec)
  then show ?thesis using assms
    by (auto simp: awakenForRestart_def restart_def resolve_def
        split: if_splits MessengerConnector_State.splits)
next
  case (EvRequestSent ec)
  then show ?thesis using assms
    by (auto simp: requestSent_def restart_def resolve_def receiveResponse_def
        split: if_splits option.splits MessengerConnector_State.splits)
next
  case (EvResponseReceived ec reads)
  then show ?thesis using assms
    by (auto simp: responseReceived_def restart_def resolve_def sendRequest_def Let_def
        split: if_splits option.splits MessengerConnector_State.splits sync_read.splits
          list.splits)
qed

text \<open>
  C3. For every connector at most one request is in flight (the current request), and
  requests are served in the order of submission. \<open>sendRequest\<close> does nothing while
  there is a current request, and otherwise takes the request at the front of the
  queue, makes it the current one and puts it on the wire. Whatever call or handler
  runs, if it starts a transmission then it starts exactly one, that of the request
  which is the current one afterwards. And in an exchange without failures and
  cancellations, starting from a new connector, the requests put on the wire followed
  by the queued ones are the submitted ones in the order of submission, and the owners
  notified are, in this order, those of all transmissions but the one in flight.
\<close>

theorem single_flight_fifo:
  "(mc_currentRequest c \<noteq> None \<longrightarrow> sendRequest c = c)
   \<and> (mc_currentRequest c = None \<and> mc_requests c = [] \<longrightarrow> sendRequest c = c)
   \<and> (mc_currentRequest c = None \<and> mc_requests c = front # rest \<longrightarrow>
        sendRequest c = c\<lparr>mc_currentRequest := Some front, mc_requests := rest,
                          mc_wire := mc_wire c @ [mw_id front]\<rparr>)
   \<and> (MessengerConnector_step c ev = Inr c1 \<and> mc_wire c1 \<noteq> mc_wire c \<longrightarrow>
        (\<exists>p. mc_currentRequest c1 = Some p \<and> mc_wire c1 = mc_wire c @ [mw_id p]))
   \<and> ((\<forall>e \<in> set evs. failureFree e) \<and> MessengerConnector_run newConnector evs = Inr c' \<longrightarrow>
        mc_wire c' @ map mw_id (mc_requests c') = submitted evs
        \<and> map fst (mc_notified c')
            = (case mc_currentRequest c' of
                 None \<Rightarrow> mc_wire c'
               | Some cur \<Rightarrow> butlast (mc_wire c')))"
proof -
  have "fifoInv newConnector []" by (simp add: fifoInv_def newConnector_def)
  then have "(\<forall>e \<in> set evs. failureFree e) \<and> MessengerConnector_run newConnector evs = Inr c'
      \<longrightarrow> fifoInv c' (submitted evs)"
    using fifoInv_run [of newConnector "[]" evs c'] by simp
  then have run: "(\<forall>e \<in> set evs. failureFree e) \<and> MessengerConnector_run newConnector evs = Inr c' \<longrightarrow>
        mc_wire c' @ map mw_id (mc_requests c') = submitted evs
        \<and> map fst (mc_notified c')
            = (case mc_currentRequest c' of
                 None \<Rightarrow> mc_wire c'
               | Some cur \<Rightarrow> butlast (mc_wire c'))"
    by (auto simp: fifoInv_def split: option.splits)
  have one: "MessengerConnector_step c ev = Inr c1 \<and> mc_wire c1 \<noteq> mc_wire c \<longrightarrow>
        (\<exists>p. mc_currentRequest c1 = Some p \<and> mc_wire c1 = mc_wire c @ [mw_id p])"
    using step_starts_at_most_one by blast
  show ?thesis using run one by (simp add: sendRequest_def)
qed

theorem single_flight_fifo_witness:
  "MessengerConnector_run newConnector
      [EvSend (newWrapper ''r1''), EvSend (newWrapper ''r2''), EvResolved ec_success,
       EvConnected ec_success, EvSend (newWrapper ''r3''), EvRequestSent ec_success,
       EvResponseReceived ec_success (ReadSucceeded True)]
     = Inr \<lparr>mc_state = STATE_COMMUNICATING, mc_requests = [newWrapper ''r3''],
            mc_currentRequest = Some (newWrapper ''r2''), mc_timer = False,
            mc_wire = [''r1'', ''r2''], mc_asyncResolve = 1, mc_asyncConnect = 1,
            mc_asyncRead = 1, mc_notified = [(''r1'', True)]\<rparr>
   \<and> [''r1'', ''r2''] @ map mw_id [newWrapper ''r3''] = [''r1'', ''r2'', ''r3'']"
proof -
  let ?evs = "[EvSend (newWrapper ''r1''), EvSend (newWrapper ''r2''), EvResolved ec_success,
       EvConnected ec_success, EvSend (newWrapper ''r3''), EvRequestSent ec_success,
       EvResponseReceived ec_success (ReadSucceeded True)]"
  let ?c = "\<lparr>mc_state = STATE_COMMUNICATING, mc_requests = [newWrapper ''r3''],
            mc_currentRequest = Some (newWrapper ''r2''), mc_timer = False,
            mc_wire = [''r1'', ''r2''], mc_asyncResolve = 1, mc_asyncConnect = 1,
            mc_asyncRead = 1, mc_notified = [(''r1'', True)]\<rparr>"
  have run: "MessengerConnector_run newConnector ?evs = Inr ?c"
    by (simp add: newConnector_def newWrapper_def sendImpl_def MessengerConnector_find_def
        resolve_def resolved_def connect_def connected_def sendRequest_def requestSent_def
        receiveResponse_def responseReceived_def Let_def)
  have ff: "\<forall>e \<in> set ?evs. failureFree e" by simp
  show ?thesis
    using single_flight_fifo [where evs = ?evs and c' = ?c] run ff
    by (simp add: newWrapper_def)
qed

subsection \<open>MessengerConnector: socket errors\<close>





subsection \<open>MessengerConnector: identifiers already registered\<close>

text \<open>
  C7. A request submitted under the identifier of the request in flight is not
  refused: \<open>find\<close> looks into the queue only, and the request in flight has left the
  queue. After \<open>r1\<close> has been submitted and put on the wire, a second \<open>r1\<close> is
  queued behind it, while a second \<open>r1\<close> submitted when the first one is still
  queued raises the logic error.
\<close>

theorem sendImpl_accepts_id_in_flight:
  "MessengerConnector_run newConnector
      [EvSend (newWrapper ''r1''), EvResolved ec_success, EvConnected ec_success,
       EvSend (newWrapper ''r1'')]
    = Inr \<lparr>mc_state = STATE_COMMUNICATING, mc_requests = [newWrapper ''r1''],
       mc_currentRequest = Some (newWrapper ''r1''), mc_timer = False,
       mc_wire = [''r1''], mc_asyncResolve = 1, mc_asyncConnect = 1,
       mc_asyncRead = 0, mc_notified = []\<rparr>
   \<and> MessengerConnector_run newConnector
      [EvSend (newWrapper ''r1''), EvSend (newWrapper ''r1'')] = Inl logic_error"
  by (simp add: newConnector_def newWrapper_def sendImpl_def MessengerConnector_find_def
      resolve_def resolved_def connect_def connected_def sendRequest_def Let_def)

subsection \<open>WorkerProcessor: duplicate requests\<close>

lemma scanForDuplicate_find:
  "scanForDuplicate response q request =
     (case List.find (\<lambda>p. isDuplicate p request) q of
        None \<Rightarrow> None
      | Some p \<Rightarrow> Some (response\<lparr>resp_status := proto_BAD, resp_status_ext := proto_ext_DUPLICATE,
                                 resp_duplicate_request_id := Some (wr_id p)\<rparr>))"
  by (induction q) (simp_all add: ifDuplicateRequest_def setDefaultResponse_def)

lemma find_two_queues:
  "List.find P (xs @ ys) = (case List.find P xs of None \<Rightarrow> List.find P ys | Some x \<Rightarrow> Some x)"
  by (induction xs) simp_all

lemma find_first:
  "P p \<Longrightarrow> \<forall>q \<in> set pre. \<not> P q \<Longrightarrow> List.find P (pre @ p # post) = Some p"
  by (induction pre) simp_all

lemma find_none:
  "\<forall>q \<in> set xs. \<not> P q \<Longrightarrow> List.find P xs = None"
  by (induction xs) simp_all

lemma isDuplicate_iff:
  "isDuplicate q request \<longleftrightarrow>
     (\<exists>s. wr_dynamic q = WorkerReplicationRequest (req_database request) (req_chunk request) s)
     \<or> wr_dynamic q = WorkerDeleteRequest (req_database request) (req_chunk request)"
  by (cases "wr_dynamic q") (auto simp: isDuplicate_def)

text \<open>
  C5. As the claim states it, any queued request on the same database and chunk would
  make the new request a duplicate. A queued find request on the same database and
  chunk does not: the replication request is admitted and reported as \<open>QUEUED\<close>.
\<close>

theorem duplicate_counterexample:
  "enqueueForReplication examplePush exampleCreateReplicationRequest ''r2''
      \<lparr>req_priority = 0, req_database = ''db'', req_chunk = 7, req_worker = ''w2''\<rparr>
      emptyResponse
      (exampleProcessor [newWorkerRequest ''f1'' 0 (WorkerFindRequest ''db'' 7 False)] [])
    = Inr (exampleProcessor
             [newWorkerRequest ''f1'' 0 (WorkerFindRequest ''db'' 7 False),
              newWorkerRequest ''r2'' 0 (WorkerReplicationRequest ''db'' 7 ''w2'')] [],
           \<lparr>resp_status = proto_QUEUED, resp_status_ext = proto_ext_NONE,
            resp_performance = Some \<lparr>receive_time = 0, start_time = 0, finish_time = 0\<rparr>,
            resp_duplicate_request_id = None\<rparr>)"
  by (simp add: enqueueForReplication_def ifDuplicateRequest_def isDuplicate_def admit_def
      exampleCreateReplicationRequest_def newWorkerRequest_def emptyResponse_def
      exampleProcessor_def)

text \<open>
  C5, amended. Say that a queued request collides with a new one if it is a
  replication request or a deletion request for the database and the chunk of the new
  one. When a replication or a deletion request is enqueued and the queue of new
  requests followed by the queue of requests in progress holds a colliding request,
  \<open>p\<close> being the first one, the new request is not queued: the processor is
  unchanged and the response has status \<open>BAD\<close>, extended status \<open>DUPLICATE\<close> and
  the id of \<open>p\<close> as the duplicate request id. When no request of the two queues
  collides and the factory accepts the parameters, the request is pushed to the queue
  of new requests and reported as \<open>QUEUED\<close>.
\<close>

theorem duplicate_rejected:
  fixes request :: ReplicationRequestMessage and wp :: WorkerProcessor
  defines "collides \<equiv> \<lambda>q.
      (\<exists>s. wr_dynamic q = WorkerReplicationRequest (req_database request) (req_chunk request) s)
      \<or> wr_dynamic q = WorkerDeleteRequest (req_database request) (req_chunk request)"
  shows
   "(wp_newRequests wp @ wp_inProgressRequests wp = pre @ p # post
       \<and> collides p \<and> (\<forall>q \<in> set pre. \<not> collides q)
      \<longrightarrow> enqueueForReplication push createR ident request response wp
            = Inr (wp, response\<lparr>resp_status := proto_BAD, resp_status_ext := proto_ext_DUPLICATE,
                               resp_duplicate_request_id := Some (wr_id p)\<rparr>)
        \<and> enqueueForDeletion push createD ident request response wp
            = Inr (wp, response\<lparr>resp_status := proto_BAD, resp_status_ext := proto_ext_DUPLICATE,
                               resp_duplicate_request_id := Some (wr_id p)\<rparr>))
   \<and> ((\<forall>q \<in> set (wp_newRequests wp @ wp_inProgressRequests wp). \<not> collides q)
        \<longrightarrow> enqueueForReplication push
              (\<lambda>worker i priority database chunk sourceWorker.
                 Inr (newWorkerRequest i priority (WorkerReplicationRequest database chunk sourceWorker)))
              ident request response wp
            = Inr (wp\<lparr>wp_newRequests :=
                       push (newWorkerRequest ident (req_priority request)
                               (WorkerReplicationRequest (req_database request) (req_chunk request)
                                  (req_worker request)))
                            (wp_newRequests wp)\<rparr>,
                   response\<lparr>resp_status := proto_QUEUED, resp_status_ext := proto_ext_NONE,
                            resp_performance := Some \<lparr>receive_time = 0, start_time = 0, finish_time = 0\<rparr>\<rparr>)
          \<and> enqueueForDeletion push
              (\<lambda>worker i priority database chunk.
                 Inr (newWorkerRequest i priority (WorkerDeleteRequest database chunk)))
              ident request response wp
            = Inr (wp\<lparr>wp_newRequests :=
                       push (newWorkerRequest ident (req_priority request)
                               (WorkerDeleteRequest (req_database request) (req_chunk request)))
                            (wp_newRequests wp)\<rparr>,
                   response\<lparr>resp_status := proto_QUEUED, resp_status_ext := proto_ext_NONE,
                            resp_performance := Some \<lparr>receive_time = 0, start_time = 0, finish_time = 0\<rparr>\<rparr>))"
proof -
  have dup: "\<And>q. isDuplicate q request \<longleftrightarrow> collides q"
    unfolding collides_def by (rule isDuplicate_iff)
  have rejected: "wp_newRequests wp @ wp_inProgressRequests wp = pre @ p # post
       \<and> collides p \<and> (\<forall>q \<in> set pre. \<not> collides q)
      \<longrightarrow> enqueueForReplication push createR ident request response wp
            = Inr (wp, response\<lparr>resp_status := proto_BAD, resp_status_ext := proto_ext_DUPLICATE,
                               resp_duplicate_request_id := Some (wr_id p)\<rparr>)
        \<and> enqueueForDeletion push createD ident request response wp
            = Inr (wp, response\<lparr>resp_status := proto_BAD, resp_status_ext := proto_ext_DUPLICATE,
                               resp_duplicate_request_id := Some (wr_id p)\<rparr>)"
  proof
    assume a: "wp_newRequests wp @ wp_inProgressRequests wp = pre @ p # post
       \<and> collides p \<and> (\<forall>q \<in> set pre. \<not> collides q)"
    then have "List.find (\<lambda>q. isDuplicate q request) (pre @ p # post) = Some p"
      by (intro find_first) (simp_all add: dup)
    with a have found: "List.find (\<lambda>q. isDuplicate q request)
        (wp_newRequests wp @ wp_inProgressRequests wp) = Some p"
      by simp
    then show "enqueueForReplication push createR ident request response wp
            = Inr (wp, response\<lparr>resp_status := proto_BAD, resp_status_ext := proto_ext_DUPLICATE,
                               resp_duplicate_request_id := Some (wr_id p)\<rparr>)
        \<and> enqueueForDeletion push createD ident request response wp
            = Inr (wp, response\<lparr>resp_status := proto_BAD, resp_status_ext := proto_ext_DUPLICATE,
                               resp_duplicate_request_id := Some (wr_id p)\<rparr>)"
      by (auto simp: enqueueForReplication_def enqueueForDeletion_def scanForDuplicate_find
          find_two_queues split: option.splits)
  qed
  have admitted: "(\<forall>q \<in> set (wp_newRequests wp @ wp_inProgressRequests wp). \<not> collides q)
        \<longrightarrow> enqueueForReplication push
              (\<lambda>worker i priority database chunk sourceWorker.
                 Inr (newWorkerRequest i priority (WorkerReplicationRequest database chunk sourceWorker)))
              ident request response wp
            = Inr (wp\<lparr>wp_newRequests :=
                       push (newWorkerRequest ident (req_priority request)
                               (WorkerReplicationRequest (req_database request) (req_chunk request)
                                  (req_worker request)))
                            (wp_newRequests wp)\<rparr>,
                   response\<lparr>resp_status := proto_QUEUED, resp_status_ext := proto_ext_NONE,
                            resp_performance := Some \<lparr>receive_time = 0, start_time = 0, finish_time = 0\<rparr>\<rparr>)
          \<and> enqueueForDeletion push
              (\<lambda>worker i priority database chunk.
                 Inr (newWorkerRequest i priority (WorkerDeleteRequest database chunk)))
              ident request response wp
            = Inr (wp\<lparr>wp_newRequests :=
                       push (newWorkerRequest ident (req_priority request)
                               (WorkerDeleteRequest (req_database request) (req_chunk request)))
                            (wp_newRequests wp)\<rparr>,
                   response\<lparr>resp_status := proto_QUEUED, resp_status_ext := proto_ext_NONE,
                            resp_performance := Some \<lparr>receive_time = 0, start_time = 0, finish_time = 0\<rparr>\<rparr>)"
  proof
    assume "\<forall>q \<in> set (wp_newRequests wp @ wp_inProgressRequests wp). \<not> collides q"
    then have "List.find (\<lambda>q. isDuplicate q request)
        (wp_newRequests wp @ wp_inProgressRequests wp) = None"
      by (intro find_none) (simp add: dup)
    then show "enqueueForReplication push
              (\<lambda>worker i priority database chunk sourceWorker.
                 Inr (newWorkerRequest i priority (WorkerReplicationRequest database chunk sourceWorker)))
              ident request response wp
            = Inr (wp\<lparr>wp_newRequests :=
                       push (newWorkerRequest ident (req_priority request)
                               (WorkerReplicationRequest (req_database request) (req_chunk request)
                                  (req_worker request)))
                            (wp_newRequests wp)\<rparr>,
                   response\<lparr>resp_status := proto_QUEUED, resp_status_ext := proto_ext_NONE,
                            resp_performance := Some \<lparr>receive_time = 0, start_time = 0, finish_time = 0\<rparr>\<rparr>)
          \<and> enqueueForDeletion push
              (\<lambda>worker i priority database chunk.
                 Inr (newWorkerRequest i priority (WorkerDeleteRequest database chunk)))
              ident request response wp
            = Inr (wp\<lparr>wp_newRequests :=
                       push (newWorkerRequest ident (req_priority request)
                               (WorkerDeleteRequest (req_database request) (req_chunk request)))
                            (wp_newRequests wp)\<rparr>,
                   response\<lparr>resp_status := proto_QUEUED, resp_status_ext := proto_ext_NONE,
                            resp_performance := Some \<lparr>receive_time = 0, start_time = 0, finish_time = 0\<rparr>\<rparr>)"
      by (auto simp: enqueueForReplication_def enqueueForDeletion_def scanForDuplicate_find
          find_two_queues admit_def newWorkerRequest_def split: option.splits)
  qed
  show ?thesis using rejected admitted by blast
qed

theorem duplicate_rejected_witness:
  "enqueueForReplication examplePush exampleCreateReplicationRequest ''r2''
      \<lparr>req_priority = 0, req_database = ''db'', req_chunk = 7, req_worker = ''w2''\<rparr>
      emptyResponse
      (exampleProcessor [newWorkerRequest ''f1'' 0 (WorkerFindRequest ''db'' 7 False)]
         [newWorkerRequest ''r0'' 0 (WorkerReplicationRequest ''db'' 7 ''w3''),
          newWorkerRequest ''d1'' 0 (WorkerDeleteRequest ''db'' 7)])
    = Inr (exampleProcessor [newWorkerRequest ''f1'' 0 (WorkerFindRequest ''db'' 7 False)]
         [newWorkerRequest ''r0'' 0 (WorkerReplicationRequest ''db'' 7 ''w3''),
          newWorkerRequest ''d1'' 0 (WorkerDeleteRequest ''db'' 7)],
           \<lparr>resp_status = proto_BAD, resp_status_ext = proto_ext_DUPLICATE,
            resp_performance = None, resp_duplicate_request_id = Some ''r0''\<rparr>)
   \<and> enqueueForDeletion examplePush exampleCreateDeleteRequest ''d2''
      \<lparr>req_priority = 0, req_database = ''db'', req_chunk = 7, req_worker = []\<rparr>
      emptyResponse
      (exampleProcessor [newWorkerRequest ''f1'' 0 (WorkerFindRequest ''db'' 7 False)]
         [newWorkerRequest ''r0'' 0 (WorkerReplicationRequest ''db'' 7 ''w3''),
          newWorkerRequest ''d1'' 0 (WorkerDeleteRequest ''db'' 7)])
    = Inr (exampleProcessor [newWorkerRequest ''f1'' 0 (WorkerFindRequest ''db'' 7 False)]
         [newWorkerRequest ''r0'' 0 (WorkerReplicationRequest ''db'' 7 ''w3''),
          newWorkerRequest ''d1'' 0 (WorkerDeleteRequest ''db'' 7)],
           \<lparr>resp_status = proto_BAD, resp_status_ext = proto_ext_DUPLICATE,
            resp_performance = None, resp_duplicate_request_id = Some ''r0''\<rparr>)"
proof -
  let ?f1 = "newWorkerRequest ''f1'' 0 (WorkerFindRequest ''db'' 7 False)"
  let ?r0 = "newWorkerRequest ''r0'' 0 (WorkerReplicationRequest ''db'' 7 ''w3'')"
  let ?d1 = "newWorkerRequest ''d1'' 0 (WorkerDeleteRequest ''db'' 7)"
  let ?wp = "exampleProcessor [?f1] [?r0, ?d1]"
  let ?rep = "\<lparr>req_priority = 0, req_database = ''db'', req_chunk = 7, req_worker = ''w2''\<rparr>"
  let ?del = "\<lparr>req_priority = 0, req_database = ''db'', req_chunk = 7, req_worker = []\<rparr>"
  have q: "wp_newRequests ?wp @ wp_inProgressRequests ?wp = [?f1] @ ?r0 # [?d1]"
    by (simp add: exampleProcessor_def)
  have rep: "wp_newRequests ?wp @ wp_inProgressRequests ?wp = [?f1] @ ?r0 # [?d1]
      \<and> ((\<exists>s. wr_dynamic ?r0 = WorkerReplicationRequest (req_database ?rep) (req_chunk ?rep) s)
          \<or> wr_dynamic ?r0 = WorkerDeleteRequest (req_database ?rep) (req_chunk ?rep))
      \<and> (\<forall>q \<in> set [?f1].
            \<not> ((\<exists>s. wr_dynamic q = WorkerReplicationRequest (req_database ?rep) (req_chunk ?rep) s)
               \<or> wr_dynamic q = WorkerDeleteRequest (req_database ?rep) (req_chunk ?rep)))"
    using q by (simp add: newWorkerRequest_def)
  have del: "wp_newRequests ?wp @ wp_inProgressRequests ?wp = [?f1] @ ?r0 # [?d1]
      \<and> ((\<exists>s. wr_dynamic ?r0 = WorkerReplicationRequest (req_database ?del) (req_chunk ?del) s)
          \<or> wr_dynamic ?r0 = WorkerDeleteRequest (req_database ?del) (req_chunk ?del))
      \<and> (\<forall>q \<in> set [?f1].
            \<not> ((\<exists>s. wr_dynamic q = WorkerReplicationRequest (req_database ?del) (req_chunk ?del) s)
               \<or> wr_dynamic q = WorkerDeleteRequest (req_database ?del) (req_chunk ?del)))"
    using q by (simp add: newWorkerRequest_def)
  have a: "enqueueForReplication examplePush exampleCreateReplicationRequest ''r2'' ?rep
             emptyResponse ?wp
           = Inr (?wp, emptyResponse\<lparr>resp_status := proto_BAD, resp_status_ext := proto_ext_DUPLICATE,
                               resp_duplicate_request_id := Some (wr_id ?r0)\<rparr>)"
    using duplicate_rejected [where request = ?rep and wp = ?wp and pre = "[?f1]" and p = ?r0
        and post = "[?d1]" and push = examplePush and createR = exampleCreateReplicationRequest
        and ident = "''r2''" and response = emptyResponse] rep
    by blast
  have b: "enqueueForDeletion examplePush exampleCreateDeleteRequest ''d2'' ?del
             emptyResponse ?wp
           = Inr (?wp, emptyResponse\<lparr>resp_status := proto_BAD, resp_status_ext := proto_ext_DUPLICATE,
                               resp_duplicate_request_id := Some (wr_id ?r0)\<rparr>)"
    using duplicate_rejected [where request = ?del and wp = ?wp and pre = "[?f1]" and p = ?r0
        and post = "[?d1]" and push = examplePush and createD = exampleCreateDeleteRequest
        and ident = "''d2''" and response = emptyResponse] del
    by blast
  show ?thesis using a b by (simp add: emptyResponse_def newWorkerRequest_def)
qed

end
